theory Spec2Isabelle
  imports Main
begin

section \<open>The lifecycle gate runner (scripts/run-lifecycle-gates.py)\<close>

subsection \<open>Values of a parsed YAML document\<close>

text \<open>
  The document returned by \<^verbatim>\<open>yaml.safe_load\<close>. A mapping keeps the order of its items
  (the loops of the program iterate in that order); its keys are strings. Every type test
  of the program is against \<^verbatim>\<open>dict\<close>, \<^verbatim>\<open>list\<close> or \<^verbatim>\<open>str\<close>, so the remaining
  scalars are represented by null, booleans and integers.
\<close>

datatype yaml =
    YNull
  | YBool bool
  | YInt int
  | YStr string
  | YList "yaml list"
  | YDict "(string \<times> yaml) list"

text \<open>
  The texts of the \<^verbatim>\<open>ValueError\<close>s that reach the \<^verbatim>\<open>except\<close> clause of \<^verbatim>\<open>main\<close>, with the
  values they format. The program raises all of them but the last:
  \<^verbatim>\<open>UnicodeDecodeError\<close> is a \<^verbatim>\<open>ValueError\<close> that reading the file raises.
\<close>

datatype message =
    ConfigNotFound string   \<comment> \<open>Config file not found: {path}\<close>
  | NotMapping              \<comment> \<open>Lifecycle config must be a YAML mapping\<close>
  | NoStages                \<comment> \<open>Lifecycle config must define a 'stages' mapping\<close>
  | NoGates                 \<comment> \<open>Lifecycle config must define a 'gates' mapping\<close>
  | NoCurrentStage          \<comment> \<open>Lifecycle config must define string field 'current_stage'\<close>
  | GateNotMapping string   \<comment> \<open>Gate '{gate_name}' must be a mapping\<close>
  | GateBadCommand string   \<comment> \<open>Gate '{gate_name}' must define non-empty string list field 'command'\<close>
  | UnknownStage string     \<comment> \<open>Unknown lifecycle stage: {stage_name}\<close>
  | BadRequiredGates string \<comment> \<open>Stage '{stage_name}' must define 'required_gates' as a list of gate names\<close>
  | NotUtf8                 \<comment> \<open>the text of the \<^verbatim>\<open>UnicodeDecodeError\<close>\<close>

text \<open>
  The exceptions. \<^verbatim>\<open>OSError\<close> stands for its subclasses too (\<^verbatim>\<open>FileNotFoundError\<close>,
  \<^verbatim>\<open>PermissionError\<close>, \<^verbatim>\<open>IsADirectoryError\<close>), \<^verbatim>\<open>YAMLError\<close> for \<^verbatim>\<open>yaml.YAMLError\<close> and
  its subclasses; neither is a \<^verbatim>\<open>ValueError\<close>.
\<close>

datatype exc =
    ValueError message
  | KeyError string
  | TypeError
  | AttributeError
  | OSError
  | YAMLError

text \<open>Every line the program prints, as the template of the line and the values it formats.\<close>

datatype event =
    EvError message                \<comment> \<open>[ERROR] {exc}\<close>
  | EvMatrixHeader                 \<comment> \<open>Lifecycle stages and required gates:\<close>
  | EvRule                         \<comment> \<open>sixty dashes\<close>
  | EvStage string string          \<comment> \<open>{stage_name}: {description}\<close>
  | EvItem yaml                    \<comment> \<open>  - {gate}\<close>
  | EvNoItems                      \<comment> \<open>  - (none)\<close>
  | EvCurrent string               \<comment> \<open>Current stage: {current_stage}\<close>
  | EvGate yaml                    \<comment> \<open>[GATE] {gate_name}\<close>
  | EvDescription yaml             \<comment> \<open>  {description}\<close>
  | EvCommand "string list"        \<comment> \<open>  command: {' '.join(command)}\<close>
  | EvPass yaml                    \<comment> \<open>[PASS] {gate_name}\<close>
  | EvFail yaml int                \<comment> \<open>[FAIL] {gate_name} (exit code {returncode})\<close>
  | EvUnknownGates string "string list"
      \<comment> \<open>[ERROR] Stage '{stage_name}' references unknown gates: {', '.join(unknown_gates)}\<close>
  | EvRunning string               \<comment> \<open>Running lifecycle gates for stage: {stage_name}\<close>
  | EvDoubleRule                   \<comment> \<open>sixty equals signs\<close>
  | EvSummaryFailed nat "string list"
      \<comment> \<open>[SUMMARY] FAILED ({len(failures)} gate(s)): {', '.join(failures)}\<close>
  | EvSummaryPassed nat            \<comment> \<open>[SUMMARY] PASSED ({len(required_gate_names)} gate(s))\<close>

subsection \<open>The Python operations the program applies to these values\<close>

fun is_dict :: "yaml \<Rightarrow> bool" where
  "is_dict (YDict kvs) = True"
| "is_dict v = False"

fun is_list :: "yaml \<Rightarrow> bool" where
  "is_list (YList xs) = True"
| "is_list v = False"

fun is_str :: "yaml \<Rightarrow> bool" where
  "is_str (YStr s) = True"
| "is_str v = False"

text \<open>Truth value: \<^verbatim>\<open>if description:\<close>, \<^verbatim>\<open>not required\<close>, \<^verbatim>\<open>not command\<close>.\<close>

fun truthy :: "yaml \<Rightarrow> bool" where
  "truthy YNull = False"
| "truthy (YBool b) = b"
| "truthy (YInt i) = (i \<noteq> 0)"
| "truthy (YStr s) = (s \<noteq> [])"
| "truthy (YList xs) = (xs \<noteq> [])"
| "truthy (YDict kvs) = (kvs \<noteq> [])"

text \<open>\<^verbatim>\<open>d.get(key, default)\<close> on a dict.\<close>

definition dict_get :: "(string \<times> yaml) list \<Rightarrow> string \<Rightarrow> yaml \<Rightarrow> yaml" where
  "dict_get kvs k d = (case map_of kvs k of Some v \<Rightarrow> v | None \<Rightarrow> d)"

text \<open>
  \<^verbatim>\<open>key in d\<close> and \<^verbatim>\<open>d[key]\<close> on a dict whose keys are strings: a list or a dict as key
  is unhashable, any other value that is not a string equals no key.
\<close>

fun dict_contains :: "(string \<times> yaml) list \<Rightarrow> yaml \<Rightarrow> exc + bool" where
  "dict_contains kvs (YStr s) = Inr (map_of kvs s \<noteq> None)"
| "dict_contains kvs (YList xs) = Inl TypeError"
| "dict_contains kvs (YDict d) = Inl TypeError"
| "dict_contains kvs v = Inr False"

fun key_text :: "yaml \<Rightarrow> string" where
  "key_text (YStr s) = s"
| "key_text v = []"

fun dict_getitem :: "(string \<times> yaml) list \<Rightarrow> yaml \<Rightarrow> exc + yaml" where
  "dict_getitem kvs (YStr s) =
     (case map_of kvs s of Some v \<Rightarrow> Inr v | None \<Rightarrow> Inl (KeyError s))"
| "dict_getitem kvs (YList xs) = Inl TypeError"
| "dict_getitem kvs (YDict d) = Inl TypeError"
| "dict_getitem kvs v = Inl (KeyError (key_text v))"

text \<open>
  Iteration (\<^verbatim>\<open>for x in v\<close>): a list gives its elements, a string its characters, a dict
  its keys; anything else raises \<^verbatim>\<open>TypeError\<close>.
\<close>

fun py_iter :: "yaml \<Rightarrow> exc + yaml list" where
  "py_iter (YList xs) = Inr xs"
| "py_iter (YStr s) = Inr (map (\<lambda>c. YStr [c]) s)"
| "py_iter (YDict kvs) = Inr (map (\<lambda>kv. YStr (fst kv)) kvs)"
| "py_iter v = Inl TypeError"

text \<open>\<^verbatim>\<open>sep.join(xs)\<close>: the strings joined, or \<^verbatim>\<open>TypeError\<close> when an item is no string.\<close>

definition py_join :: "yaml list \<Rightarrow> exc + string list" where
  "py_join xs = (if list_all is_str xs then Inr (map key_text xs) else Inl TypeError)"

text \<open>\<^verbatim>\<open>s.strip()\<close> on the whitespace of ASCII.\<close>

definition is_space :: "char \<Rightarrow> bool" where
  "is_space c = (c \<in> set [CHR 0x20, CHR 0x09, CHR 0x0A, CHR 0x0B, CHR 0x0C, CHR 0x0D,
                            CHR 0x1C, CHR 0x1D, CHR 0x1E, CHR 0x1F])"

definition strip :: "string \<Rightarrow> string" where
  "strip s = rev (dropWhile is_space (rev (dropWhile is_space s)))"

subsection \<open>The configuration\<close>

text \<open>
  What \<^verbatim>\<open>load_config\<close> returns is the parsed dict itself; the program reads three keys
  of it afterwards, whose shape \<^verbatim>\<open>load_config\<close> has checked. The record holds these
  three.
\<close>

record config =
  current_stage :: string
  stages :: "(string \<times> yaml) list"
  gates :: "(string \<times> yaml) list"

text \<open>
  What is at a path that exists, as far as lines 27 and 28 can tell: something that
  \<^verbatim>\<open>path.open\<close> or a read refuses with an \<^verbatim>\<open>OSError\<close> (a directory, a file without read
  permission); bytes that are no UTF-8, where the read inside \<^verbatim>\<open>yaml.safe_load\<close> raises
  \<^verbatim>\<open>UnicodeDecodeError\<close>; text that is no YAML, where \<^verbatim>\<open>yaml.safe_load\<close> raises
  \<^verbatim>\<open>yaml.YAMLError\<close>; or a document, which \<^verbatim>\<open>yaml.safe_load\<close> returns.
\<close>

datatype file_content =
    Document yaml
  | Unreadable
  | Undecodable
  | Malformed

text \<open>The file system as far as the program reads it; \<open>None\<close> when the path does not exist.\<close>

type_synonym files = "string \<Rightarrow> file_content option"

definition load_config :: "files \<Rightarrow> string \<Rightarrow> exc + config" where
  "load_config fs path =
     (case fs path of
        None \<Rightarrow> Inl (ValueError (ConfigNotFound path))
      | Some Unreadable \<Rightarrow> Inl OSError
      | Some Undecodable \<Rightarrow> Inl (ValueError NotUtf8)
      | Some Malformed \<Rightarrow> Inl YAMLError
      | Some (Document data) \<Rightarrow>
          (case data of
             YDict kvs \<Rightarrow>
               (case map_of kvs ''stages'' of
                  Some (YDict st) \<Rightarrow>
                    (case map_of kvs ''gates'' of
                       Some (YDict gs) \<Rightarrow>
                         (case map_of kvs ''current_stage'' of
                            Some (YStr cs) \<Rightarrow>
                              Inr \<lparr>current_stage = cs, stages = st, gates = gs\<rparr>
                          | _ \<Rightarrow> Inl (ValueError NoCurrentStage))
                     | _ \<Rightarrow> Inl (ValueError NoGates))
                | _ \<Rightarrow> Inl (ValueError NoStages))
           | _ \<Rightarrow> Inl (ValueError NotMapping)))"

text \<open>The test on \<^verbatim>\<open>command\<close>: a list, not empty, of strings only.\<close>

fun command_ok :: "yaml \<Rightarrow> bool" where
  "command_ok (YList xs) = (xs \<noteq> [] \<and> list_all is_str xs)"
| "command_ok v = False"

text \<open>The body of the loop of \<^verbatim>\<open>validate_gate_definitions\<close>, for one item.\<close>

definition check_gate :: "string \<Rightarrow> yaml \<Rightarrow> exc option" where
  "check_gate gate_name gate =
     (case gate of
        YDict g \<Rightarrow>
          (let command = dict_get g ''command'' YNull
           in if \<not> command_ok command then Some (ValueError (GateBadCommand gate_name))
              else None)
      | _ \<Rightarrow> Some (ValueError (GateNotMapping gate_name)))"

fun check_gates :: "(string \<times> yaml) list \<Rightarrow> exc + unit" where
  "check_gates [] = Inr ()"
| "check_gates (item # rest) =
     (case check_gate (fst item) (snd item) of
        Some e \<Rightarrow> Inl e
      | None \<Rightarrow> check_gates rest)"

definition validate_gate_definitions :: "config \<Rightarrow> exc + unit" where
  "validate_gate_definitions c = check_gates (gates c)"

text \<open>The test on \<^verbatim>\<open>required_gates\<close>: a list of strings.\<close>

fun names_ok :: "yaml \<Rightarrow> bool" where
  "names_ok (YList xs) = list_all is_str xs"
| "names_ok v = False"

definition resolve_stage :: "config \<Rightarrow> string \<Rightarrow> exc + (string \<times> (string \<times> yaml) list)" where
  "resolve_stage c override_stage =
     (let stage_name = (if override_stage \<noteq> [] then override_stage else current_stage c)
      in case map_of (stages c) stage_name of
           Some (YDict stage_config) \<Rightarrow>
             (let required_gates = dict_get stage_config ''required_gates'' (YList [])
              in if \<not> names_ok required_gates
                 then Inl (ValueError (BadRequiredGates stage_name))
                 else Inr (stage_name, stage_config))
         | _ \<Rightarrow> Inl (ValueError (UnknownStage stage_name)))"

subsection \<open>The state of a run\<close>

text \<open>
  \<open>world\<close> is everything a child process can read and change; \<open>printed\<close> is the standard
  output so far; \<open>gate_log\<close> is the record of the child processes that have run, in order:
  the gate's name, its command and its exit status.
\<close>

record 'w state =
  world :: 'w
  printed :: "event list"
  gate_log :: "(yaml \<times> yaml \<times> int) list"

definition init :: "'w \<Rightarrow> 'w state" where
  "init w = \<lparr>world = w, printed = [], gate_log = []\<rparr>"

definition emit :: "event \<Rightarrow> 'w state \<Rightarrow> 'w state" where
  "emit e s = s\<lparr>printed := printed s @ [e]\<rparr>"

text \<open>
  \<^verbatim>\<open>subprocess.run(command, cwd=repo_root, check=False)\<close>: either the child runs in the world
  it finds, the call returns when the child has ended, and the result is the exit status;
  or the command cannot be started (no such program, no permission to execute it) and the
  call raises. Both leave a world behind.
\<close>

type_synonym 'w subprocess = "'w \<Rightarrow> string \<Rightarrow> yaml \<Rightarrow> (exc + int) \<times> 'w"

subsection \<open>Printing the matrix\<close>

fun print_items :: "yaml list \<Rightarrow> 'w state \<Rightarrow> 'w state" where
  "print_items [] s = s"
| "print_items (g # rest) s = print_items rest (emit (EvItem g) s)"

fun print_stages :: "(string \<times> yaml) list \<Rightarrow> 'w state \<Rightarrow> exc option \<times> 'w state" where
  "print_stages [] s = (None, s)"
| "print_stages (item # rest) s =
     (case snd item of
        YDict stage \<Rightarrow>
          (case dict_get stage ''description'' (YStr []) of
             YStr d \<Rightarrow>
               (let description = strip d;
                    required = dict_get stage ''required_gates'' (YList []);
                    s1 = emit (EvStage (fst item) description) s
                in case py_iter required of
                     Inl e \<Rightarrow> (Some e, s1)
                   | Inr items \<Rightarrow>
                       (let s2 = print_items items s1;
                            s3 = (if \<not> truthy required then emit EvNoItems s2 else s2)
                        in print_stages rest s3))
           | _ \<Rightarrow> (Some AttributeError, s))
      | _ \<Rightarrow> (Some AttributeError, s))"

definition print_stage_matrix :: "config \<Rightarrow> 'w state \<Rightarrow> exc option \<times> 'w state" where
  "print_stage_matrix c s =
     (case print_stages (stages c) (emit EvRule (emit EvMatrixHeader s)) of
        (Some e, s1) \<Rightarrow> (Some e, s1)
      | (None, s1) \<Rightarrow> (None, emit (EvCurrent (current_stage c)) (emit EvRule s1)))"

subsection \<open>Running a gate\<close>

definition run_gate ::
  "'w subprocess \<Rightarrow> string \<Rightarrow> yaml \<Rightarrow> yaml \<Rightarrow> 'w state \<Rightarrow> (exc + int) \<times> 'w state" where
  "run_gate sp repo_root gate_name gate_config s =
     (case gate_config of
        YDict g \<Rightarrow>
          (let description = dict_get g ''description'' (YStr [])
           in case map_of g ''command'' of
                None \<Rightarrow> (Inl (KeyError ''command''), s)
              | Some command \<Rightarrow>
                  (let s1 = emit (EvGate gate_name) s;
                       s2 = (if truthy description then emit (EvDescription description) s1
                             else s1)
                   in case py_iter command of
                        Inl e \<Rightarrow> (Inl e, s2)
                      | Inr toks \<Rightarrow>
                          (case py_join toks of
                             Inl e \<Rightarrow> (Inl e, s2)
                           | Inr words \<Rightarrow>
                               (let s3 = emit (EvCommand words) s2;
                                    r = sp (world s3) repo_root command
                                in case fst r of
                                     Inl e \<Rightarrow> (Inl e, s3\<lparr>world := snd r\<rparr>)
                                   | Inr returncode \<Rightarrow>
                                       (let s4 = s3\<lparr>world := snd r,
                                                   gate_log := gate_log s3 @
                                                     [(gate_name, command, returncode)]\<rparr>
                                        in if returncode = 0
                                           then (Inr returncode, emit (EvPass gate_name) s4)
                                           else (Inr returncode,
                                                 emit (EvFail gate_name returncode) s4))))))
      | _ \<Rightarrow> (Inl AttributeError, s))"

subsection \<open>The main program\<close>

text \<open>What the process ends with: the status \<^verbatim>\<open>main\<close> returns, or an exception nobody caught.\<close>

datatype outcome = Exit int | Uncaught exc

text \<open>The interpreter ends with status 1 on an uncaught exception.\<close>

fun exit_code :: "outcome \<Rightarrow> int" where
  "exit_code (Exit n) = n"
| "exit_code (Uncaught e) = 1"

record args =
  arg_config :: string
  arg_stage :: string
  arg_list :: bool

text \<open>The body of the \<^verbatim>\<open>try\<close> of \<^verbatim>\<open>main\<close>.\<close>

definition startup :: "files \<Rightarrow> args \<Rightarrow> exc + (config \<times> string \<times> (string \<times> yaml) list)" where
  "startup fs a =
     (case load_config fs (arg_config a) of
        Inl e \<Rightarrow> Inl e
      | Inr c \<Rightarrow>
          (case validate_gate_definitions c of
             Inl e \<Rightarrow> Inl e
           | Inr u \<Rightarrow>
               (case resolve_stage c (arg_stage a) of
                  Inl e \<Rightarrow> Inl e
                | Inr r \<Rightarrow> Inr (c, fst r, snd r))))"

text \<open>\<^verbatim>\<open>[gate for gate in required_gate_names if gate not in gates]\<close>\<close>

fun unknown_of :: "(string \<times> yaml) list \<Rightarrow> yaml list \<Rightarrow> exc + yaml list" where
  "unknown_of gs [] = Inr []"
| "unknown_of gs (gate # rest) =
     (case dict_contains gs gate of
        Inl e \<Rightarrow> Inl e
      | Inr known \<Rightarrow>
          (case unknown_of gs rest of
             Inl e \<Rightarrow> Inl e
           | Inr others \<Rightarrow> Inr (if \<not> known then gate # others else others)))"

text \<open>The loop over the required gates, with the list \<^verbatim>\<open>failures\<close> it appends to.\<close>

fun run_gates ::
  "'w subprocess \<Rightarrow> string \<Rightarrow> (string \<times> yaml) list \<Rightarrow> yaml list \<Rightarrow> yaml list \<Rightarrow> 'w state
     \<Rightarrow> (exc + yaml list) \<times> 'w state" where
  "run_gates sp repo_root gs [] failures s = (Inr failures, s)"
| "run_gates sp repo_root gs (gate_name # rest) failures s =
     (case dict_getitem gs gate_name of
        Inl e \<Rightarrow> (Inl e, s)
      | Inr gate_config \<Rightarrow>
          (case run_gate sp repo_root gate_name gate_config s of
             (Inl e, s1) \<Rightarrow> (Inl e, s1)
           | (Inr returncode, s1) \<Rightarrow>
               run_gates sp repo_root gs rest
                 (if returncode \<noteq> 0 then failures @ [gate_name] else failures) s1))"

text \<open>The part of \<^verbatim>\<open>main\<close> after the list mode: lines 141 to 163.\<close>

definition run_stage ::
  "'w subprocess \<Rightarrow> string \<Rightarrow> config \<Rightarrow> string \<Rightarrow> (string \<times> yaml) list \<Rightarrow> 'w state
     \<Rightarrow> outcome \<times> 'w state" where
  "run_stage sp repo_root c stage_name stage_config s =
     (let required_gate_names = dict_get stage_config ''required_gates'' (YList [])
      in case py_iter required_gate_names of
           Inl e \<Rightarrow> (Uncaught e, s)
         | Inr names \<Rightarrow>
             (case unknown_of (gates c) names of
                Inl e \<Rightarrow> (Uncaught e, s)
              | Inr unknown_gates \<Rightarrow>
                  if unknown_gates \<noteq> [] then
                    (case py_join unknown_gates of
                       Inl e \<Rightarrow> (Uncaught e, s)
                     | Inr texts \<Rightarrow> (Exit 2, emit (EvUnknownGates stage_name texts) s))
                  else
                    (let s1 = emit EvRule (emit (EvRunning stage_name) s)
                     in case run_gates sp repo_root (gates c) names [] s1 of
                          (Inl e, s2) \<Rightarrow> (Uncaught e, s2)
                        | (Inr failures, s2) \<Rightarrow>
                            (let s3 = emit EvDoubleRule s2
                             in if failures \<noteq> [] then
                                  (case py_join failures of
                                     Inl e \<Rightarrow> (Uncaught e, s3)
                                   | Inr texts \<Rightarrow>
                                       (Exit 1,
                                        emit (EvSummaryFailed (length failures) texts) s3))
                                else (Exit 0, emit (EvSummaryPassed (length names)) s3)))))"

definition main ::
  "'w subprocess \<Rightarrow> files \<Rightarrow> string \<Rightarrow> args \<Rightarrow> 'w \<Rightarrow> outcome \<times> 'w state" where
  "main sp fs repo_root a w =
     (case startup fs a of
        Inl (ValueError m) \<Rightarrow> (Exit 2, emit (EvError m) (init w))
      | Inl e \<Rightarrow> (Uncaught e, init w)
      | Inr (c, stage_name, stage_config) \<Rightarrow>
          if arg_list a then
            (case print_stage_matrix c (init w) of
               (Some e, s) \<Rightarrow> (Uncaught e, s)
             | (None, s) \<Rightarrow> (Exit 0, s))
          else run_stage sp repo_root c stage_name stage_config (init w))"

section \<open>Notions used in the statements\<close>

text \<open>
  The names in \<^verbatim>\<open>required_gates\<close> of a stage, read the way \<^verbatim>\<open>main\<close> reads them
  (\<^verbatim>\<open>stage_config.get("required_gates", [])\<close>).
\<close>

definition required_gates :: "(string \<times> yaml) list \<Rightarrow> string list" where
  "required_gates stage_config =
     (case dict_get stage_config ''required_gates'' (YList []) of
        YList xs \<Rightarrow> map key_text xs
      | _ \<Rightarrow> [])"

text \<open>The command of a gate of the catalog.\<close>

definition gate_command :: "(string \<times> yaml) list \<Rightarrow> string \<Rightarrow> yaml" where
  "gate_command gs n =
     (case map_of gs n of
        Some (YDict g) \<Rightarrow> dict_get g ''command'' YNull
      | _ \<Rightarrow> YNull)"

text \<open>
  What running the named gates strictly one after the other means, in terms of the
  children alone: the child of each gate starts in the world the child before it has left,
  and the first command that cannot be started ends the sequence. The result is the record
  of the children that ran (name, command, exit status), the last world, and the exception
  of the command that could not be started, if there was one.
\<close>

fun in_sequence ::
  "'w subprocess \<Rightarrow> string \<Rightarrow> (string \<times> yaml) list \<Rightarrow> string list \<Rightarrow> 'w
     \<Rightarrow> (yaml \<times> yaml \<times> int) list \<times> 'w \<times> exc option" where
  "in_sequence sp repo_root gs [] w = ([], w, None)"
| "in_sequence sp repo_root gs (n # ns) w =
     (let command = gate_command gs n;
          r = sp w repo_root command
      in case fst r of
           Inl e \<Rightarrow> ([], snd r, Some e)
         | Inr status \<Rightarrow>
             (let rest = in_sequence sp repo_root gs ns (snd r)
              in ((YStr n, command, status) # fst rest, snd rest)))"

text \<open>The names of the gates of a record that ended with a status other than zero.\<close>

definition failed :: "(yaml \<times> yaml \<times> int) list \<Rightarrow> yaml list" where
  "failed log = map fst (filter (\<lambda>e. snd (snd e) \<noteq> 0) log)"

text \<open>
  A stage that \<^verbatim>\<open>print_stage_matrix\<close> can print: a mapping whose \<^verbatim>\<open>description\<close> (if any)
  is a string and whose \<^verbatim>\<open>required_gates\<close> (if any) can be iterated.
\<close>

fun printable_stage :: "yaml \<Rightarrow> bool" where
  "printable_stage (YDict d) =
     (is_str (dict_get d ''description'' (YStr []))
      \<and> (is_list (dict_get d ''required_gates'' (YList []))
         \<or> is_str (dict_get d ''required_gates'' (YList []))
         \<or> is_dict (dict_get d ''required_gates'' (YList []))))"
| "printable_stage v = False"

definition printable :: "config \<Rightarrow> bool" where
  "printable c = list_all (\<lambda>item. printable_stage (snd item)) (stages c)"

text \<open>
  The gate definition of the specification (section 3, GateDef): a mapping whose
  \<^verbatim>\<open>command\<close> is a list, not empty, of strings.
\<close>

fun gate_def :: "yaml \<Rightarrow> bool" where
  "gate_def (YDict d) =
     (case map_of d ''command'' of
        Some (YList xs) \<Rightarrow> xs \<noteq> [] \<and> list_all is_str xs
      | _ \<Rightarrow> False)"
| "gate_def v = False"

text \<open>
  The valid configuration of the specification (section 3), as far as resolution depends on
  it: \<^verbatim>\<open>current_stage\<close> is a key of \<^verbatim>\<open>stages\<close>, and every stage is a mapping whose
  \<^verbatim>\<open>required_gates\<close>, when it has one, is a list of strings. The specification asks for
  more (descriptions, gate definitions, names that exist in \<^verbatim>\<open>gates\<close>), so every
  configuration valid in its sense is valid in this one.
\<close>

fun stage_def :: "yaml \<Rightarrow> bool" where
  "stage_def (YDict d) =
     (case map_of d ''required_gates'' of
        None \<Rightarrow> True
      | Some (YList xs) \<Rightarrow> list_all is_str xs
      | Some v \<Rightarrow> False)"
| "stage_def v = False"

definition valid_config :: "config \<Rightarrow> bool" where
  "valid_config c =
     (map_of (stages c) (current_stage c) \<noteq> None
      \<and> list_all (\<lambda>item. stage_def (snd item)) (stages c))"

section \<open>A configuration to run the program on\<close>

text \<open>
  Three gates, of which \<^verbatim>\<open>test\<close> passes and the other two fail under \<open>ex_sp\<close>; four stages,
  of which \<^verbatim>\<open>release\<close> has no \<^verbatim>\<open>required_gates\<close> and \<^verbatim>\<open>review\<close> names two gates that do
  not exist. The world of \<open>ex_sp\<close> counts the children that have run; the one program that
  does not exist in it is \<^verbatim>\<open>no-such-binary-xyz\<close>.
\<close>

definition ex_gate_items :: "(string \<times> yaml) list" where
  "ex_gate_items =
     [(''lint'', YDict [(''description'', YStr ''Lint''), (''command'', YList [YStr ''false''])]),
      (''test'', YDict [(''command'', YList [YStr ''true''])]),
      (''audit'', YDict [(''command'', YList [YStr ''audit'', YStr ''--strict''])])]"

definition ex_planning :: "(string \<times> yaml) list" where
  "ex_planning =
     [(''description'', YStr '' Plan ''),
      (''required_gates'', YList [YStr ''lint'', YStr ''test'', YStr ''audit''])]"

definition ex_review :: "(string \<times> yaml) list" where
  "ex_review = [(''required_gates'', YList [YStr ''lint'', YStr ''sign'', YStr ''ship''])]"

definition ex_stage_items :: "(string \<times> yaml) list" where
  "ex_stage_items =
     [(''planning'', YDict ex_planning),
      (''build'', YDict [(''required_gates'', YList [YStr ''test''])]),
      (''release'', YDict [(''description'', YStr ''Ship'')]),
      (''review'', YDict ex_review)]"

definition ex_loaded :: config where
  "ex_loaded = \<lparr>current_stage = ''planning'', stages = ex_stage_items, gates = ex_gate_items\<rparr>"

definition ex_doc :: yaml where
  "ex_doc = YDict
     [(''current_stage'', YStr ''planning''),
      (''stages'', YDict ex_stage_items),
      (''gates'', YDict ex_gate_items)]"

definition ex_files :: "yaml \<Rightarrow> files" where
  "ex_files doc p = (if p = ''lifecycle-stage.yaml'' then Some (Document doc) else None)"

definition no_files :: files where
  "no_files p = None"

definition ex_sp :: "nat subprocess" where
  "ex_sp w repo_root command =
     (if command = YList [YStr ''no-such-binary-xyz''] then (Inl OSError, w)
      else (Inr (if command = YList [YStr ''true''] then 0 else 1), Suc w))"

definition ex_args :: "string \<Rightarrow> bool \<Rightarrow> args" where
  "ex_args st l = \<lparr>arg_config = ''lifecycle-stage.yaml'', arg_stage = st, arg_list = l\<rparr>"

text \<open>A configuration whose current stage is not among its stages.\<close>

definition ex_lost_doc :: yaml where
  "ex_lost_doc = YDict
     [(''current_stage'', YStr ''nowhere''),
      (''stages'', YDict ex_stage_items),
      (''gates'', YDict ex_gate_items)]"

text \<open>A configuration with two gates that both have no usable command.\<close>

definition ex_bad_gates :: config where
  "ex_bad_gates =
     \<lparr>current_stage = ''planning'',
      stages = [(''planning'', YDict [])],
      gates = [(''a'', YDict []), (''b'', YDict [(''command'', YList [])])]\<rparr>"

definition ex_bad_gates_doc :: yaml where
  "ex_bad_gates_doc = YDict
     [(''current_stage'', YStr ''planning''),
      (''stages'', YDict [(''planning'', YDict [])]),
      (''gates'', YDict [(''a'', YDict []), (''b'', YDict [(''command'', YList [])])])]"

text \<open>A configuration with a stage that is no mapping and a stage whose gates are no list.\<close>

definition ex_draft :: config where
  "ex_draft =
     \<lparr>current_stage = ''draft'',
      stages = [(''draft'', YNull), (''broken'', YDict [(''required_gates'', YInt 5)]),
                (''empty'', YDict [(''description'', YStr ''Nothing to check'')])],
      gates = []\<rparr>"

definition ex_draft_doc :: yaml where
  "ex_draft_doc = YDict
     [(''stages'', YDict [(''draft'', YNull), (''broken'', YDict [(''required_gates'', YInt 5)]),
                          (''empty'', YDict [(''description'', YStr ''Nothing to check'')])]),
      (''gates'', YDict []),
      (''current_stage'', YStr ''draft'')]"

text \<open>
  A configuration that passes every check of the program and has a gate, \<^verbatim>\<open>pack\<close>, whose
  command is a program that does not exist.
\<close>

definition ex_pack_gates :: "(string \<times> yaml) list" where
  "ex_pack_gates =
     [(''lint'', YDict [(''command'', YList [YStr ''false''])]),
      (''pack'', YDict [(''command'', YList [YStr ''no-such-binary-xyz''])]),
      (''test'', YDict [(''command'', YList [YStr ''true''])])]"

definition ex_verify :: "(string \<times> yaml) list" where
  "ex_verify = [(''required_gates'', YList [YStr ''lint'', YStr ''pack'', YStr ''test''])]"

definition ex_ship :: "(string \<times> yaml) list" where
  "ex_ship = [(''required_gates'', YList [YStr ''test'', YStr ''pack'', YStr ''lint''])]"

definition ex_pack :: config where
  "ex_pack =
     \<lparr>current_stage = ''verify'',
      stages = [(''verify'', YDict ex_verify), (''ship'', YDict ex_ship)],
      gates = ex_pack_gates\<rparr>"

definition ex_pack_doc :: yaml where
  "ex_pack_doc = YDict
     [(''current_stage'', YStr ''verify''),
      (''stages'', YDict [(''verify'', YDict ex_verify), (''ship'', YDict ex_ship)]),
      (''gates'', YDict ex_pack_gates)]"

text \<open>A file system in which the config path is a directory, and one in which it is no YAML.\<close>

definition ex_directory :: files where
  "ex_directory p = (if p = ''lifecycle-stage.yaml'' then Some Unreadable else None)"

definition ex_garbled :: files where
  "ex_garbled p = (if p = ''lifecycle-stage.yaml'' then Some Malformed else None)"

section \<open>Lemmas\<close>

lemma emit_fields:
  "world (emit e s) = world s" "gate_log (emit e s) = gate_log s"
  "printed (emit e s) = printed s @ [e]"
  by (simp_all add: emit_def)

lemma init_fields:
  "world (init w) = w" "printed (init w) = []" "gate_log (init w) = []"
  by (simp_all add: init_def)

lemma map_YStr_key_text: "list_all is_str xs \<Longrightarrow> map YStr (map key_text xs) = xs"
proof (induction xs)
  case Nil
  then show ?case by simp
next
  case (Cons x xs)
  then show ?case by (cases x) simp_all
qed

lemma key_text_YStr: "map key_text (map YStr ns) = ns"
  by (induction ns) simp_all

lemma list_all_is_str_YStr: "list_all is_str (map YStr ns)"
  by (induction ns) simp_all

lemma load_config_Inr:
  assumes "load_config fs p = Inr c"
  shows "\<exists>kvs. fs p = Some (Document (YDict kvs))
           \<and> map_of kvs ''stages'' = Some (YDict (stages c))
           \<and> map_of kvs ''gates'' = Some (YDict (gates c))
           \<and> map_of kvs ''current_stage'' = Some (YStr (current_stage c))"
  using assms unfolding load_config_def
  by (auto split: option.splits file_content.splits yaml.splits)

lemma check_gate_None:
  "check_gate n g = None \<longleftrightarrow>
     (\<exists>d xs. g = YDict d \<and> map_of d ''command'' = Some (YList xs) \<and> xs \<noteq> [] \<and> list_all is_str xs)"
proof (cases g)
  case (YDict d)
  show ?thesis
  proof (cases "map_of d ''command''")
    case None
    with YDict show ?thesis by (simp add: check_gate_def dict_get_def)
  next
    case (Some c)
    with YDict show ?thesis by (cases c) (simp_all add: check_gate_def dict_get_def)
  qed
qed (simp_all add: check_gate_def)

lemma check_gates_Inr:
  "check_gates gs = Inr u \<longleftrightarrow> (\<forall>item \<in> set gs. check_gate (fst item) (snd item) = None)"
  by (induction gs) (auto split: option.splits)

lemma checked_gate:
  assumes "check_gates gs = Inr u" and "map_of gs n = Some g"
  shows "\<exists>d xs. g = YDict d \<and> map_of d ''command'' = Some (YList xs) \<and> xs \<noteq> [] \<and> list_all is_str xs"
proof -
  from assms(2) have "(n, g) \<in> set gs" by (rule map_of_SomeD)
  with assms(1) have "check_gate n g = None" by (auto simp: check_gates_Inr)
  then show ?thesis by (simp add: check_gate_None)
qed

lemma resolve_stage_Inr:
  assumes "resolve_stage c ov = Inr (n, sc)"
  shows "n = (if ov \<noteq> [] then ov else current_stage c)
         \<and> map_of (stages c) n = Some (YDict sc)
         \<and> (\<exists>xs. dict_get sc ''required_gates'' (YList []) = YList xs \<and> list_all is_str xs)"
proof -
  let ?n = "if ov \<noteq> [] then ov else current_stage c"
  from assms obtain d where d: "map_of (stages c) ?n = Some (YDict d)"
    unfolding resolve_stage_def Let_def
    by (auto split: option.splits yaml.splits)
  with assms have ok: "names_ok (dict_get d ''required_gates'' (YList []))" and eq: "n = ?n" "sc = d"
    unfolding resolve_stage_def Let_def by (auto split: if_splits)
  from ok obtain xs where "dict_get d ''required_gates'' (YList []) = YList xs" "list_all is_str xs"
    by (cases "dict_get d ''required_gates'' (YList [])") simp_all
  with d eq show ?thesis by auto
qed

lemma check_gate_gate_def: "check_gate g v = None \<longleftrightarrow> gate_def v"
proof (cases v)
  case (YDict d)
  show ?thesis
  proof (cases "map_of d ''command''")
    case None
    with YDict show ?thesis by (simp add: check_gate_def dict_get_def)
  next
    case (Some cmd)
    with YDict show ?thesis by (cases cmd) (simp_all add: check_gate_def dict_get_def)
  qed
qed (simp_all add: check_gate_def)

lemma check_gate_names:
  "\<not> gate_def v \<Longrightarrow>
     check_gate g v = Some (ValueError (GateNotMapping g))
     \<or> check_gate g v = Some (ValueError (GateBadCommand g))"
  using check_gate_gate_def [of g v]
  by (auto simp: check_gate_def Let_def split: yaml.splits if_splits)

lemma check_gates_first:
  "list_all (\<lambda>item. gate_def (snd item)) before \<Longrightarrow>
     check_gates (before @ (g, v) # rest)
       = (case check_gate g v of Some e \<Rightarrow> Inl e | None \<Rightarrow> check_gates rest)"
proof (induction before)
  case Nil
  show ?case by simp
next
  case (Cons item before)
  from Cons.prems have "check_gate (fst item) (snd item) = None"
    by (simp add: check_gate_gate_def)
  with Cons show ?case by simp
qed

lemma run_gate_started:
  assumes "map_of d ''command'' = Some (YList xs)" and "list_all is_str xs"
    and "fst (sp (world s) root (YList xs)) = Inr status"
  shows "\<exists>s'. run_gate sp root n (YDict d) s = (Inr status, s')
           \<and> world s' = snd (sp (world s) root (YList xs))
           \<and> gate_log s' = gate_log s @ [(n, YList xs, status)]"
  using assms by (simp add: run_gate_def Let_def py_join_def emit_def)

lemma run_gate_not_started:
  assumes "map_of d ''command'' = Some (YList xs)" and "list_all is_str xs"
    and "fst (sp (world s) root (YList xs)) = Inl e"
  shows "\<exists>s'. run_gate sp root n (YDict d) s = (Inl e, s')
           \<and> world s' = snd (sp (world s) root (YList xs))
           \<and> gate_log s' = gate_log s"
  using assms by (simp add: run_gate_def Let_def py_join_def emit_def)

lemma gate_command_checked:
  "map_of gs n = Some (YDict d) \<Longrightarrow> map_of d ''command'' = Some c \<Longrightarrow> gate_command gs n = c"
  by (simp add: gate_command_def dict_get_def)

lemma run_gates_checked:
  assumes "check_gates gs = Inr u" and "\<forall>n \<in> set ns. map_of gs n \<noteq> None"
  shows "\<exists>s'. run_gates sp root gs (map YStr ns) fl s
                = (case snd (snd (in_sequence sp root gs ns (world s))) of
                     None \<Rightarrow> Inr (fl @ failed (fst (in_sequence sp root gs ns (world s))))
                   | Some e \<Rightarrow> Inl e,
                   s')
           \<and> world s' = fst (snd (in_sequence sp root gs ns (world s)))
           \<and> gate_log s' = gate_log s @ fst (in_sequence sp root gs ns (world s))"
  using assms(2)
proof (induction ns arbitrary: fl s)
  case Nil
  show ?case by (simp add: failed_def)
next
  case (Cons n ns)
  from Cons.prems obtain g where g: "map_of gs n = Some g" by auto
  from checked_gate [OF assms(1) g] obtain d xs where
    d: "g = YDict d" "map_of d ''command'' = Some (YList xs)" "list_all is_str xs"
    by blast
  have cmd: "gate_command gs n = YList xs"
    using g d by (simp add: gate_command_checked)
  let ?r = "sp (world s) root (YList xs)"
  show ?case
  proof (cases "fst ?r")
    case (Inl e)
    from run_gate_not_started [where sp = sp and s = s and root = root and n = "YStr n",
                               OF d(2) d(3) Inl] obtain s1 where
      s1: "run_gate sp root (YStr n) (YDict d) s = (Inl e, s1)"
          "world s1 = snd ?r" "gate_log s1 = gate_log s"
      by blast
    have "run_gates sp root gs (map YStr (n # ns)) fl s = (Inl e, s1)"
      using g d(1) s1(1) by simp
    moreover have "in_sequence sp root gs (n # ns) (world s) = ([], snd ?r, Some e)"
      using cmd Inl by (simp add: Let_def)
    ultimately show ?thesis using s1(2,3) by simp
  next
    case (Inr status)
    from run_gate_started [where sp = sp and s = s and root = root and n = "YStr n",
                           OF d(2) d(3) Inr] obtain s1 where
      s1: "run_gate sp root (YStr n) (YDict d) s = (Inr status, s1)"
          "world s1 = snd ?r"
          "gate_log s1 = gate_log s @ [(YStr n, YList xs, status)]"
      by blast
    let ?fl = "if status \<noteq> 0 then fl @ [YStr n] else fl"
    let ?rest = "in_sequence sp root gs ns (world s1)"
    from Cons.prems have "\<forall>m \<in> set ns. map_of gs m \<noteq> None" by simp
    from Cons.IH [OF this, of ?fl s1] obtain s' where
      s': "run_gates sp root gs (map YStr ns) ?fl s1
             = (case snd (snd ?rest) of
                  None \<Rightarrow> Inr (?fl @ failed (fst ?rest))
                | Some e \<Rightarrow> Inl e,
                s')"
          "world s' = fst (snd ?rest)"
          "gate_log s' = gate_log s1 @ fst ?rest"
      by blast
    have step: "run_gates sp root gs (map YStr (n # ns)) fl s
                  = run_gates sp root gs (map YStr ns) ?fl s1"
      using g d(1) s1(1) by simp
    have seq: "in_sequence sp root gs (n # ns) (world s)
                 = ((YStr n, YList xs, status) # fst ?rest, snd ?rest)"
      using cmd Inr s1(2) by (simp add: Let_def)
    have fl: "?fl @ failed (fst ?rest) = fl @ failed ((YStr n, YList xs, status) # fst ?rest)"
      by (simp add: failed_def)
    show ?thesis
      unfolding step seq fst_conv snd_conv using s'(1) [unfolded fl] s'(2,3) s1(3) by simp
  qed
qed

lemma unknown_of_names:
  "unknown_of gs (map YStr ns) = Inr (map YStr (filter (\<lambda>n. map_of gs n = None) ns))"
  by (induction ns) simp_all

lemma in_sequence_names:
  "snd (snd (in_sequence sp root gs ns w)) = None \<Longrightarrow>
     map fst (fst (in_sequence sp root gs ns w)) = map YStr ns"
  by (induction ns arbitrary: w) (auto simp: Let_def split: sum.splits)

lemma in_sequence_prefix:
  "map fst (fst (in_sequence sp root gs ns w))
     = map YStr (take (length (fst (in_sequence sp root gs ns w))) ns)"
  by (induction ns arbitrary: w) (auto simp: Let_def split: sum.splits)

lemma in_sequence_stopped:
  "snd (snd (in_sequence sp root gs ns w)) = Some e \<Longrightarrow>
     length (fst (in_sequence sp root gs ns w)) < length ns"
  by (induction ns arbitrary: w) (auto simp: Let_def split: sum.splits)

lemma failed_is_str: "list_all is_str (failed (fst (in_sequence sp root gs ns w)))"
  by (induction ns arbitrary: w) (auto simp: Let_def failed_def split: sum.splits)

lemma required_gates_resolved:
  assumes "resolve_stage c ov = Inr (n, sc)"
  shows "dict_get sc ''required_gates'' (YList []) = YList (map YStr (required_gates sc))"
proof -
  from resolve_stage_Inr [OF assms] obtain xs where
    xs: "dict_get sc ''required_gates'' (YList []) = YList xs" "list_all is_str xs" by blast
  then show ?thesis by (simp add: required_gates_def map_YStr_key_text del: map_map)
qed

lemma run_stage_unknown:
  assumes "dict_get sc ''required_gates'' (YList []) = YList (map YStr ns)"
    and "\<exists>n \<in> set ns. map_of (gates c) n = None"
  shows "run_stage sp root c name sc s
           = (Exit 2, emit (EvUnknownGates name (filter (\<lambda>n. map_of (gates c) n = None) ns)) s)"
proof -
  from assms(2) have ne: "filter (\<lambda>n. map_of (gates c) n = None) ns \<noteq> []"
    by (simp add: filter_empty_conv)
  show ?thesis
    using assms(1) ne
    by (simp add: run_stage_def unknown_of_names py_join_def list_all_is_str_YStr key_text_YStr
          del: map_map)
qed

lemma run_stage_known:
  assumes "dict_get sc ''required_gates'' (YList []) = YList (map YStr ns)"
    and "\<forall>n \<in> set ns. map_of (gates c) n \<noteq> None"
    and "check_gates (gates c) = Inr u"
  shows "\<exists>s'. run_stage sp root c name sc s
             = (case snd (snd (in_sequence sp root (gates c) ns (world s))) of
                  Some e \<Rightarrow> (Uncaught e, s')
                | None \<Rightarrow>
                    (if failed (fst (in_sequence sp root (gates c) ns (world s))) \<noteq> []
                     then Exit 1 else Exit 0,
                     emit (if failed (fst (in_sequence sp root (gates c) ns (world s))) \<noteq> []
                           then EvSummaryFailed
                                  (length (failed (fst (in_sequence sp root (gates c) ns (world s)))))
                                  (map key_text
                                     (failed (fst (in_sequence sp root (gates c) ns (world s)))))
                           else EvSummaryPassed (length ns))
                       (emit EvDoubleRule s')))
           \<and> world s' = fst (snd (in_sequence sp root (gates c) ns (world s)))
           \<and> gate_log s' = gate_log s @ fst (in_sequence sp root (gates c) ns (world s))"
proof -
  let ?s1 = "emit EvRule (emit (EvRunning name) s)"
  let ?R = "in_sequence sp root (gates c) ns (world s)"
  have w1: "world ?s1 = world s" and l1: "gate_log ?s1 = gate_log s" by (simp_all add: emit_def)
  from run_gates_checked [OF assms(3) assms(2), of sp root "[]" ?s1, unfolded w1 l1 append_Nil]
  obtain s2 where
    s2: "run_gates sp root (gates c) (map YStr ns) [] ?s1
           = (case snd (snd ?R) of None \<Rightarrow> Inr (failed (fst ?R)) | Some e \<Rightarrow> Inl e, s2)"
        "world s2 = fst (snd ?R)"
        "gate_log s2 = gate_log s @ fst ?R"
    by blast
  from assms(2) have none: "filter (\<lambda>n. map_of (gates c) n = None) ns = []"
    by (simp add: filter_empty_conv)
  have "run_stage sp root c name sc s
             = (case snd (snd ?R) of
                  Some e \<Rightarrow> (Uncaught e, s2)
                | None \<Rightarrow>
                    (if failed (fst ?R) \<noteq> [] then Exit 1 else Exit 0,
                     emit (if failed (fst ?R) \<noteq> []
                           then EvSummaryFailed (length (failed (fst ?R)))
                                  (map key_text (failed (fst ?R)))
                           else EvSummaryPassed (length ns))
                       (emit EvDoubleRule s2)))"
    using assms(1) none s2(1)
    by (simp add: run_stage_def unknown_of_names py_join_def failed_is_str Let_def
          split: option.splits)
  with s2(2,3) show ?thesis by blast
qed

lemma print_items_silent:
  "world (print_items xs s) = world s \<and> gate_log (print_items xs s) = gate_log s"
  by (induction xs arbitrary: s) (simp_all add: emit_fields)

lemma print_stages_silent:
  "world (snd (print_stages sts s)) = world s \<and> gate_log (snd (print_stages sts s)) = gate_log s"
proof (induction sts arbitrary: s)
  case Nil
  show ?case by simp
next
  case (Cons item rest)
  show ?case
  proof (cases "snd item")
    case (YDict stage)
    show ?thesis
    proof (cases "dict_get stage ''description'' (YStr [])")
      case (YStr d)
      show ?thesis
      proof (cases "py_iter (dict_get stage ''required_gates'' (YList []))")
        case (Inl e)
        with YDict YStr show ?thesis by (simp add: emit_fields)
      next
        case (Inr items)
        with YDict YStr show ?thesis
          by (simp add: Let_def Cons.IH print_items_silent emit_fields)
      qed
    qed (simp_all add: YDict)
  qed simp_all
qed

lemma print_stages_printable:
  "list_all (\<lambda>item. printable_stage (snd item)) sts \<Longrightarrow> fst (print_stages sts s) = None"
proof (induction sts arbitrary: s)
  case Nil
  show ?case by simp
next
  case (Cons item rest)
  from Cons.prems obtain stage where st: "snd item = YDict stage"
    by (cases "snd item") simp_all
  with Cons.prems obtain d where d: "dict_get stage ''description'' (YStr []) = YStr d"
    by (cases "dict_get stage ''description'' (YStr [])") simp_all
  from Cons.prems st obtain items where
    it: "py_iter (dict_get stage ''required_gates'' (YList [])) = Inr items"
    by (cases "dict_get stage ''required_gates'' (YList [])") simp_all
  from Cons.prems have "list_all (\<lambda>item. printable_stage (snd item)) rest" by simp
  then show ?case using st d it by (simp add: Let_def Cons.IH)
qed

lemma print_stage_matrix_silent:
  "world (snd (print_stage_matrix c s)) = world s
   \<and> gate_log (snd (print_stage_matrix c s)) = gate_log s"
proof -
  let ?s0 = "emit EvRule (emit EvMatrixHeader s)"
  have s0: "world ?s0 = world s" "gate_log ?s0 = gate_log s" by (simp_all add: emit_fields)
  obtain r s1 where r: "print_stages (stages c) ?s0 = (r, s1)" by (cases "print_stages (stages c) ?s0")
  with print_stages_silent [of "stages c" ?s0] s0
  have "world s1 = world s" "gate_log s1 = gate_log s" by simp_all
  with r show ?thesis by (cases r) (simp_all add: print_stage_matrix_def emit_fields)
qed

lemma print_stage_matrix_printable:
  "printable c \<Longrightarrow> fst (print_stage_matrix c s) = None"
proof -
  assume "printable c"
  then have "fst (print_stages (stages c) (emit EvRule (emit EvMatrixHeader s))) = None"
    unfolding printable_def by (rule print_stages_printable)
  then show ?thesis
    by (cases "print_stages (stages c) (emit EvRule (emit EvMatrixHeader s))")
       (simp add: print_stage_matrix_def)
qed

lemma check_gates_error:
  "check_gates gs = Inl e \<Longrightarrow> \<exists>m. e = ValueError m"
  by (induction gs) (auto simp: check_gate_def Let_def split: option.splits yaml.splits if_splits)

lemma load_config_error:
  "fs p = Some (Document doc) \<Longrightarrow> load_config fs p = Inl e \<Longrightarrow> \<exists>m. e = ValueError m"
  unfolding load_config_def by (auto split: option.splits yaml.splits)

lemma resolve_stage_error:
  "resolve_stage c ov = Inl e \<Longrightarrow> \<exists>m. e = ValueError m"
  unfolding resolve_stage_def Let_def by (auto split: option.splits yaml.splits if_splits)

lemma startup_error:
  "fs (arg_config a) = Some (Document doc) \<Longrightarrow> startup fs a = Inl e \<Longrightarrow> \<exists>m. e = ValueError m"
  unfolding startup_def validate_gate_definitions_def
  by (auto split: sum.splits dest: load_config_error check_gates_error resolve_stage_error)

lemma startup_error_silent:
  "startup fs a = Inl e \<Longrightarrow>
     gate_log (snd (main sp fs repo_root a w)) = [] \<and> world (snd (main sp fs repo_root a w)) = w"
proof (cases e)
  case (ValueError m)
  assume "startup fs a = Inl e"
  with ValueError show ?thesis by (simp add: main_def emit_fields init_fields)
qed (simp_all add: main_def init_fields)

lemma startup_Inr:
  "startup fs a = Inr (c, n, sc) \<longleftrightarrow>
     load_config fs (arg_config a) = Inr c \<and> validate_gate_definitions c = Inr ()
     \<and> resolve_stage c (arg_stage a) = Inr (n, sc)"
  unfolding startup_def by (auto split: sum.splits)

lemma main_error:
  "startup fs a = Inl (ValueError m) \<Longrightarrow> main sp fs root a w = (Exit 2, emit (EvError m) (init w))"
  by (simp add: main_def)

lemma main_list:
  "startup fs a = Inr (c, n, sc) \<Longrightarrow> arg_list a \<Longrightarrow>
     main sp fs root a w =
       (case print_stage_matrix c (init w) of
          (Some e, s) \<Rightarrow> (Uncaught e, s)
        | (None, s) \<Rightarrow> (Exit 0, s))"
  by (simp add: main_def)

lemma main_run:
  "startup fs a = Inr (c, n, sc) \<Longrightarrow> \<not> arg_list a \<Longrightarrow>
     main sp fs root a w = run_stage sp root c n sc (init w)"
  by (simp add: main_def)

lemma stage_def_resolves:
  assumes "map_of (stages c) n = Some v" and "stage_def v"
    and "n = (if ov \<noteq> [] then ov else current_stage c)"
  shows "\<exists>d. v = YDict d \<and> resolve_stage c ov = Inr (n, d)"
proof -
  from assms(2) obtain d where d: "v = YDict d" by (cases v) simp_all
  have "names_ok (dict_get d ''required_gates'' (YList []))"
  proof (cases "map_of d ''required_gates''")
    case None
    then show ?thesis by (simp add: dict_get_def)
  next
    case (Some r)
    with assms(2) d show ?thesis by (cases r) (simp_all add: dict_get_def)
  qed
  with assms(1,3) d show ?thesis by (simp add: resolve_stage_def Let_def)
qed

lemma main_unknown:
  assumes "startup fs a = Inr (c, n, sc)" and "\<not> arg_list a"
    and "\<exists>g \<in> set (required_gates sc). map_of (gates c) g = None"
  shows "main sp fs repo_root a w
           = (Exit 2,
              emit (EvUnknownGates n (filter (\<lambda>g. map_of (gates c) g = None) (required_gates sc)))
                (init w))"
proof -
  from assms(1) have "resolve_stage c (arg_stage a) = Inr (n, sc)" by (simp add: startup_Inr)
  then have "dict_get sc ''required_gates'' (YList []) = YList (map YStr (required_gates sc))"
    by (rule required_gates_resolved)
  from run_stage_unknown [OF this assms(3), of sp repo_root n "init w"]
  show ?thesis by (simp only: main_run [OF assms(1,2)])
qed

lemma main_known:
  assumes "startup fs a = Inr (c, n, sc)" and "\<not> arg_list a"
    and "\<forall>g \<in> set (required_gates sc). map_of (gates c) g \<noteq> None"
  shows "\<exists>s'. main sp fs repo_root a w
             = (case snd (snd (in_sequence sp repo_root (gates c) (required_gates sc) w)) of
                  Some e \<Rightarrow> (Uncaught e, s')
                | None \<Rightarrow>
                    (if failed (fst (in_sequence sp repo_root (gates c) (required_gates sc) w)) \<noteq> []
                     then Exit 1 else Exit 0,
                     emit (if failed (fst (in_sequence sp repo_root (gates c) (required_gates sc) w))
                              \<noteq> []
                           then EvSummaryFailed
                                  (length (failed (fst (in_sequence sp repo_root (gates c)
                                                          (required_gates sc) w))))
                                  (map key_text
                                     (failed (fst (in_sequence sp repo_root (gates c)
                                                     (required_gates sc) w))))
                           else EvSummaryPassed (length (required_gates sc)))
                       (emit EvDoubleRule s')))
           \<and> world s' = fst (snd (in_sequence sp repo_root (gates c) (required_gates sc) w))
           \<and> gate_log s' = fst (in_sequence sp repo_root (gates c) (required_gates sc) w)"
proof -
  from assms(1) have r: "resolve_stage c (arg_stage a) = Inr (n, sc)"
    and v: "check_gates (gates c) = Inr ()"
    by (simp_all add: startup_Inr validate_gate_definitions_def)
  from r have names: "dict_get sc ''required_gates'' (YList []) = YList (map YStr (required_gates sc))"
    by (rule required_gates_resolved)
  have w: "world (init w) = w" and l: "gate_log (init w) = []" by (simp_all add: init_fields)
  have m: "main sp fs repo_root a w = run_stage sp repo_root c n sc (init w)"
    using assms(1,2) by (rule main_run)
  show ?thesis
    using run_stage_known [OF names assms(3) v, of sp repo_root n "init w"]
    unfolding m w l append_Nil .
qed

text \<open>The two cases of a run that reaches the loop, apart.\<close>

lemma main_started:
  assumes "startup fs a = Inr (c, n, sc)" and "\<not> arg_list a"
    and "\<forall>g \<in> set (required_gates sc). map_of (gates c) g \<noteq> None"
    and "snd (snd (in_sequence sp repo_root (gates c) (required_gates sc) w)) = None"
  shows "fst (main sp fs repo_root a w)
           = (if failed (fst (in_sequence sp repo_root (gates c) (required_gates sc) w)) \<noteq> []
              then Exit 1 else Exit 0)"
    and "last (printed (snd (main sp fs repo_root a w)))
           = (if failed (fst (in_sequence sp repo_root (gates c) (required_gates sc) w)) \<noteq> []
              then EvSummaryFailed
                     (length (failed (fst (in_sequence sp repo_root (gates c) (required_gates sc) w))))
                     (map key_text
                        (failed (fst (in_sequence sp repo_root (gates c) (required_gates sc) w))))
              else EvSummaryPassed (length (required_gates sc)))"
    and "gate_log (snd (main sp fs repo_root a w))
           = fst (in_sequence sp repo_root (gates c) (required_gates sc) w)"
    and "world (snd (main sp fs repo_root a w))
           = fst (snd (in_sequence sp repo_root (gates c) (required_gates sc) w))"
  using main_known [OF assms(1-3), of sp repo_root w] assms(4)
  by (auto simp: emit_fields)

lemma main_not_started:
  assumes "startup fs a = Inr (c, n, sc)" and "\<not> arg_list a"
    and "\<forall>g \<in> set (required_gates sc). map_of (gates c) g \<noteq> None"
    and "snd (snd (in_sequence sp repo_root (gates c) (required_gates sc) w)) = Some e"
  shows "fst (main sp fs repo_root a w) = Uncaught e"
    and "gate_log (snd (main sp fs repo_root a w))
           = fst (in_sequence sp repo_root (gates c) (required_gates sc) w)"
    and "world (snd (main sp fs repo_root a w))
           = fst (snd (in_sequence sp repo_root (gates c) (required_gates sc) w))"
  using main_known [OF assms(1-3), of sp repo_root w] assms(4)
  by auto

lemma load_config_invalid:
  assumes "fs p = Some (Document doc)"
    and "\<not> (\<exists>kvs st gs cs. doc = YDict kvs \<and> map_of kvs ''stages'' = Some (YDict st)
            \<and> map_of kvs ''gates'' = Some (YDict gs)
            \<and> map_of kvs ''current_stage'' = Some (YStr cs))"
  shows "load_config fs p = Inl (ValueError NotMapping)
       \<or> load_config fs p = Inl (ValueError NoStages)
       \<or> load_config fs p = Inl (ValueError NoGates)
       \<or> load_config fs p = Inl (ValueError NoCurrentStage)"
  using assms unfolding load_config_def
  by (auto split: option.splits yaml.splits)

subsection \<open>The example configuration, evaluated\<close>

lemma ex_load: "load_config (ex_files ex_doc) ''lifecycle-stage.yaml'' = Inr ex_loaded"
  by (simp add: load_config_def ex_files_def ex_doc_def ex_loaded_def)

lemma ex_validate: "validate_gate_definitions ex_loaded = Inr ()"
  by (simp add: validate_gate_definitions_def ex_loaded_def ex_gate_items_def check_gate_def
        dict_get_def)

lemma ex_resolve:
  "resolve_stage ex_loaded [] = Inr (''planning'', ex_planning)"
  "resolve_stage ex_loaded ''build'' = Inr (''build'', [(''required_gates'', YList [YStr ''test''])])"
  "resolve_stage ex_loaded ''release'' = Inr (''release'', [(''description'', YStr ''Ship'')])"
  "resolve_stage ex_loaded ''review'' = Inr (''review'', ex_review)"
  by (simp_all add: resolve_stage_def ex_loaded_def ex_stage_items_def ex_planning_def ex_review_def
        dict_get_def)

lemma ex_startup:
  "startup (ex_files ex_doc) (ex_args [] l) = Inr (ex_loaded, ''planning'', ex_planning)"
  "startup (ex_files ex_doc) (ex_args ''build'' l)
     = Inr (ex_loaded, ''build'', [(''required_gates'', YList [YStr ''test''])])"
  "startup (ex_files ex_doc) (ex_args ''release'' l)
     = Inr (ex_loaded, ''release'', [(''description'', YStr ''Ship'')])"
  "startup (ex_files ex_doc) (ex_args ''review'' l) = Inr (ex_loaded, ''review'', ex_review)"
  by (simp_all add: startup_Inr ex_args_def ex_load ex_validate ex_resolve)

lemma ex_resolve_missing:
  "resolve_stage ex_loaded ''missing'' = Inl (ValueError (UnknownStage ''missing''))"
  by (simp add: resolve_stage_def ex_loaded_def ex_stage_items_def)

lemma ex_startup_missing:
  "startup (ex_files ex_doc) (ex_args ''missing'' l) = Inl (ValueError (UnknownStage ''missing''))"
  by (simp add: startup_def ex_args_def ex_load ex_validate ex_resolve_missing)

lemma ex_required:
  "required_gates ex_planning = [''lint'', ''test'', ''audit'']"
  "required_gates ex_review = [''lint'', ''sign'', ''ship'']"
  "required_gates [(''required_gates'', YList [YStr ''test''])] = [''test'']"
  by (simp_all add: required_gates_def dict_get_def ex_planning_def ex_review_def)

lemma ex_catalog:
  "map_of (gates ex_loaded) ''lint''
     = Some (YDict [(''description'', YStr ''Lint''), (''command'', YList [YStr ''false''])])"
  "map_of (gates ex_loaded) ''test'' = Some (YDict [(''command'', YList [YStr ''true''])])"
  "map_of (gates ex_loaded) ''audit''
     = Some (YDict [(''command'', YList [YStr ''audit'', YStr ''--strict''])])"
  "map_of (gates ex_loaded) ''sign'' = None"
  "map_of (gates ex_loaded) ''ship'' = None"
  by (simp_all add: ex_loaded_def ex_gate_items_def)

lemma ex_commands:
  "gate_command (gates ex_loaded) ''lint'' = YList [YStr ''false'']"
  "gate_command (gates ex_loaded) ''test'' = YList [YStr ''true'']"
  "gate_command (gates ex_loaded) ''audit'' = YList [YStr ''audit'', YStr ''--strict'']"
  by (simp_all add: gate_command_def dict_get_def ex_loaded_def ex_gate_items_def)

lemma ex_in_sequence:
  "in_sequence ex_sp ''/repo'' (gates ex_loaded) (required_gates ex_planning) 0
     = ([(YStr ''lint'', YList [YStr ''false''], 1),
         (YStr ''test'', YList [YStr ''true''], 0),
         (YStr ''audit'', YList [YStr ''audit'', YStr ''--strict''], 1)], 3, None)"
  "in_sequence ex_sp ''/repo'' (gates ex_loaded)
     (required_gates [(''required_gates'', YList [YStr ''test''])]) 0
     = ([(YStr ''test'', YList [YStr ''true''], 0)], 1, None)"
  unfolding ex_required by (simp_all add: ex_commands ex_sp_def Let_def)

lemma ex_known:
  "\<forall>g \<in> set (required_gates ex_planning). map_of (gates ex_loaded) g \<noteq> None"
  "\<forall>g \<in> set (required_gates [(''required_gates'', YList [YStr ''test''])]).
     map_of (gates ex_loaded) g \<noteq> None"
  by (simp_all add: ex_required ex_catalog)

lemma ex_unknown: "\<exists>g \<in> set (required_gates ex_review). map_of (gates ex_loaded) g = None"
  by (simp add: ex_required ex_catalog)

lemma ex_flags: "\<not> arg_list (ex_args st False)" "arg_list (ex_args st True)"
  by (simp_all add: ex_args_def)

lemma ex_printable: "printable ex_loaded"
  by (simp add: printable_def ex_loaded_def ex_stage_items_def ex_planning_def ex_review_def
        dict_get_def)

subsection \<open>The configuration with the gate that cannot be started, evaluated\<close>

lemma ex_pack_load:
  "load_config (ex_files ex_pack_doc) ''lifecycle-stage.yaml'' = Inr ex_pack"
  by (simp add: load_config_def ex_files_def ex_pack_doc_def ex_pack_def)

lemma ex_pack_validate: "validate_gate_definitions ex_pack = Inr ()"
  by (simp add: validate_gate_definitions_def ex_pack_def ex_pack_gates_def check_gate_def
        dict_get_def)

lemma ex_pack_resolve:
  "resolve_stage ex_pack [] = Inr (''verify'', ex_verify)"
  "resolve_stage ex_pack ''ship'' = Inr (''ship'', ex_ship)"
  by (simp_all add: resolve_stage_def ex_pack_def ex_verify_def ex_ship_def dict_get_def)

lemma ex_pack_startup:
  "startup (ex_files ex_pack_doc) (ex_args [] l) = Inr (ex_pack, ''verify'', ex_verify)"
  "startup (ex_files ex_pack_doc) (ex_args ''ship'' l) = Inr (ex_pack, ''ship'', ex_ship)"
  by (simp_all add: startup_Inr ex_args_def ex_pack_load ex_pack_validate ex_pack_resolve)

lemma ex_pack_required:
  "required_gates ex_verify = [''lint'', ''pack'', ''test'']"
  "required_gates ex_ship = [''test'', ''pack'', ''lint'']"
  by (simp_all add: required_gates_def dict_get_def ex_verify_def ex_ship_def)

lemma ex_pack_catalog:
  "map_of (gates ex_pack) ''lint'' = Some (YDict [(''command'', YList [YStr ''false''])])"
  "map_of (gates ex_pack) ''pack''
     = Some (YDict [(''command'', YList [YStr ''no-such-binary-xyz''])])"
  "map_of (gates ex_pack) ''test'' = Some (YDict [(''command'', YList [YStr ''true''])])"
  by (simp_all add: ex_pack_def ex_pack_gates_def)

lemma ex_pack_run:
  "run_stage ex_sp ''/repo'' ex_pack ''verify'' ex_verify (init 0)
     = (Uncaught OSError,
        \<lparr>world = 1,
         printed = [EvRunning ''verify'', EvRule,
                    EvGate (YStr ''lint''), EvCommand [''false''], EvFail (YStr ''lint'') 1,
                    EvGate (YStr ''pack''), EvCommand [''no-such-binary-xyz'']],
         gate_log = [(YStr ''lint'', YList [YStr ''false''], 1)]\<rparr>)"
  "run_stage ex_sp ''/repo'' ex_pack ''ship'' ex_ship (init 0)
     = (Uncaught OSError,
        \<lparr>world = 1,
         printed = [EvRunning ''ship'', EvRule,
                    EvGate (YStr ''test''), EvCommand [''true''], EvPass (YStr ''test''),
                    EvGate (YStr ''pack''), EvCommand [''no-such-binary-xyz'']],
         gate_log = [(YStr ''test'', YList [YStr ''true''], 0)]\<rparr>)"
  by (simp_all add: run_stage_def run_gate_def ex_verify_def ex_ship_def ex_pack_catalog dict_get_def
        py_join_def ex_sp_def emit_def init_def Let_def)

subsection \<open>A config path that cannot be read or parsed\<close>

lemma ex_unreadable:
  "main sp ex_directory repo_root (ex_args st l) w = (Uncaught OSError, init w)"
  "main sp ex_garbled repo_root (ex_args st l) w = (Uncaught YAMLError, init w)"
  "exit_code (fst (main sp ex_directory repo_root (ex_args st l) w)) = 1"
  "exit_code (fst (main sp ex_garbled repo_root (ex_args st l) w)) = 1"
  by (simp_all add: main_def startup_def load_config_def ex_directory_def ex_garbled_def ex_args_def)

section \<open>The claims\<close>

subsection \<open>C1: the exit code\<close>

text \<open>
  C1, as amended. The claim gives exit code 0 to every invocation in list mode and exit
  code 2 to every configuration error; the program loads, validates and resolves before it
  looks at the list flag, so an error wins over list mode. What holds: the exit code is 2
  when the config file is missing and, for a file that is read and parsed, whenever
  loading, gate validation or stage resolution fails, list mode or not. When they succeed,
  the exit code is 0 in list mode (for a config whose stages can all be printed); outside
  list mode it is 2 when a required gate is absent from \<^verbatim>\<open>gates\<close>, and otherwise, in a run
  in which every command can be started, 1 when the child of one or more required gates
  ended with a status other than zero and 0 when all of them ended with zero. The exit
  statuses are those of the children themselves, run one after the other. Nothing is said
  here about a file that cannot be read or parsed (lemma \<open>ex_unreadable\<close>), a stage that
  cannot be printed, or a command that cannot be started: there an exception that nobody
  catches ends the process.
\<close>

theorem exit_code_of_main:
  "(fs (arg_config a) = None \<longrightarrow> exit_code (fst (main sp fs repo_root a w)) = 2)
   \<and> (fs (arg_config a) = Some (Document doc) \<longrightarrow> startup fs a = Inl e \<longrightarrow>
        exit_code (fst (main sp fs repo_root a w)) = 2)
   \<and> (startup fs a = Inr (c, n, sc) \<longrightarrow>
        (arg_list a \<longrightarrow> printable c \<longrightarrow> exit_code (fst (main sp fs repo_root a w)) = 0)
        \<and> (\<not> arg_list a \<longrightarrow> (\<exists>g \<in> set (required_gates sc). map_of (gates c) g = None) \<longrightarrow>
             exit_code (fst (main sp fs repo_root a w)) = 2)
        \<and> (\<not> arg_list a \<longrightarrow> (\<forall>g \<in> set (required_gates sc). map_of (gates c) g \<noteq> None) \<longrightarrow>
             snd (snd (in_sequence sp repo_root (gates c) (required_gates sc) w)) = None \<longrightarrow>
             exit_code (fst (main sp fs repo_root a w))
               = (if \<exists>r \<in> set (fst (in_sequence sp repo_root (gates c) (required_gates sc) w)).
                       snd (snd r) \<noteq> 0
                  then 1 else 0)))"
proof (intro conjI impI)
  assume "fs (arg_config a) = None"
  then have "startup fs a = Inl (ValueError (ConfigNotFound (arg_config a)))"
    by (simp add: startup_def load_config_def)
  then show "exit_code (fst (main sp fs repo_root a w)) = 2" by (simp add: main_error)
next
  assume d: "fs (arg_config a) = Some (Document doc)" and e: "startup fs a = Inl e"
  then obtain m where "e = ValueError m" by (auto dest: startup_error)
  with e show "exit_code (fst (main sp fs repo_root a w)) = 2" by (simp add: main_error)
next
  assume s: "startup fs a = Inr (c, n, sc)" and l: "arg_list a" and p: "printable c"
  from p have "fst (print_stage_matrix c (init w)) = None" by (rule print_stage_matrix_printable)
  then show "exit_code (fst (main sp fs repo_root a w)) = 0"
    unfolding main_list [OF s l] by (cases "print_stage_matrix c (init w)") simp
next
  assume s: "startup fs a = Inr (c, n, sc)" and l: "\<not> arg_list a"
    and u: "\<exists>g \<in> set (required_gates sc). map_of (gates c) g = None"
  show "exit_code (fst (main sp fs repo_root a w)) = 2"
    by (simp add: main_unknown [OF s l u])
next
  assume s: "startup fs a = Inr (c, n, sc)" and l: "\<not> arg_list a"
    and k: "\<forall>g \<in> set (required_gates sc). map_of (gates c) g \<noteq> None"
    and ok: "snd (snd (in_sequence sp repo_root (gates c) (required_gates sc) w)) = None"
  let ?log = "fst (in_sequence sp repo_root (gates c) (required_gates sc) w)"
  have f: "failed ?log \<noteq> [] \<longleftrightarrow> (\<exists>r \<in> set ?log. snd (snd r) \<noteq> 0)"
    by (simp add: failed_def filter_empty_conv)
  show "exit_code (fst (main sp fs repo_root a w))
               = (if \<exists>r \<in> set ?log. snd (snd r) \<noteq> 0 then 1 else 0)"
    unfolding main_started(1) [OF s l k ok] using f by simp
qed

text \<open>
  The table at six invocations: no file; a stage that does not exist; list mode; a stage
  with unknown gates; a run in which two of three gates fail; a run in which the one gate
  passes.
\<close>

theorem exit_code_of_main_witness:
  "(no_files (arg_config (ex_args [] False)) = None
      \<and> exit_code (fst (main ex_sp no_files ''/repo'' (ex_args [] False) 0)) = 2)
   \<and> (ex_files ex_doc (arg_config (ex_args ''missing'' False)) = Some (Document ex_doc)
      \<and> startup (ex_files ex_doc) (ex_args ''missing'' False)
          = Inl (ValueError (UnknownStage ''missing''))
      \<and> exit_code (fst (main ex_sp (ex_files ex_doc) ''/repo'' (ex_args ''missing'' False) 0)) = 2)
   \<and> (startup (ex_files ex_doc) (ex_args [] True) = Inr (ex_loaded, ''planning'', ex_planning)
      \<and> arg_list (ex_args [] True) \<and> printable ex_loaded
      \<and> exit_code (fst (main ex_sp (ex_files ex_doc) ''/repo'' (ex_args [] True) 0)) = 0)
   \<and> (startup (ex_files ex_doc) (ex_args ''review'' False) = Inr (ex_loaded, ''review'', ex_review)
      \<and> \<not> arg_list (ex_args ''review'' False)
      \<and> (\<exists>g \<in> set (required_gates ex_review). map_of (gates ex_loaded) g = None)
      \<and> exit_code (fst (main ex_sp (ex_files ex_doc) ''/repo'' (ex_args ''review'' False) 0)) = 2)
   \<and> (startup (ex_files ex_doc) (ex_args [] False) = Inr (ex_loaded, ''planning'', ex_planning)
      \<and> \<not> arg_list (ex_args [] False)
      \<and> required_gates ex_planning = [''lint'', ''test'', ''audit'']
      \<and> map_of (gates ex_loaded) ''lint'' \<noteq> None
      \<and> map_of (gates ex_loaded) ''test'' \<noteq> None
      \<and> map_of (gates ex_loaded) ''audit'' \<noteq> None
      \<and> in_sequence ex_sp ''/repo'' (gates ex_loaded) (required_gates ex_planning) 0
          = ([(YStr ''lint'', YList [YStr ''false''], 1),
              (YStr ''test'', YList [YStr ''true''], 0),
              (YStr ''audit'', YList [YStr ''audit'', YStr ''--strict''], 1)], 3, None)
      \<and> exit_code (fst (main ex_sp (ex_files ex_doc) ''/repo'' (ex_args [] False) 0)) = 1)
   \<and> (startup (ex_files ex_doc) (ex_args ''build'' False)
        = Inr (ex_loaded, ''build'', [(''required_gates'', YList [YStr ''test''])])
      \<and> in_sequence ex_sp ''/repo'' (gates ex_loaded)
           (required_gates [(''required_gates'', YList [YStr ''test''])]) 0
          = ([(YStr ''test'', YList [YStr ''true''], 0)], 1, None)
      \<and> exit_code (fst (main ex_sp (ex_files ex_doc) ''/repo'' (ex_args ''build'' False) 0)) = 0)"
proof -
  note nl = ex_flags(1) and li = ex_flags(2)
  have a: "no_files (arg_config (ex_args [] False)) = None" by (simp add: no_files_def)
  have d: "ex_files ex_doc (arg_config (ex_args ''missing'' False)) = Some (Document ex_doc)"
    by (simp add: ex_files_def ex_args_def)
  have b: "startup (ex_files ex_doc) (ex_args ''missing'' False)
             = Inl (ValueError (UnknownStage ''missing''))"
    by (rule ex_startup_missing)
  have ok: "snd (snd (in_sequence ex_sp ''/repo'' (gates ex_loaded) (required_gates ex_planning) 0))
              = None"
    and ok': "snd (snd (in_sequence ex_sp ''/repo'' (gates ex_loaded)
                          (required_gates [(''required_gates'', YList [YStr ''test''])]) 0)) = None"
    unfolding ex_in_sequence by simp_all
  have "exit_code (fst (main ex_sp no_files ''/repo'' (ex_args [] False) 0)) = 2"
    using exit_code_of_main [of no_files "ex_args [] False" ex_sp "''/repo''" 0] a by simp
  moreover have "exit_code (fst (main ex_sp (ex_files ex_doc) ''/repo'' (ex_args ''missing'' False) 0)) = 2"
    using exit_code_of_main [of "ex_files ex_doc" "ex_args ''missing'' False" ex_sp "''/repo''" 0
                                ex_doc "ValueError (UnknownStage ''missing'')"] b d by simp
  moreover have "exit_code (fst (main ex_sp (ex_files ex_doc) ''/repo'' (ex_args [] True) 0)) = 0"
    using exit_code_of_main [of "ex_files ex_doc" "ex_args [] True" ex_sp "''/repo''" 0 _ _
                                ex_loaded "''planning''" ex_planning]
      ex_startup(1) [of True] li ex_printable by simp
  moreover have "exit_code (fst (main ex_sp (ex_files ex_doc) ''/repo'' (ex_args ''review'' False) 0)) = 2"
    using exit_code_of_main [of "ex_files ex_doc" "ex_args ''review'' False" ex_sp "''/repo''" 0 _ _
                                ex_loaded "''review''" ex_review]
      ex_startup(4) [of False] nl ex_unknown by simp
  moreover have "exit_code (fst (main ex_sp (ex_files ex_doc) ''/repo'' (ex_args [] False) 0)) = 1"
    using exit_code_of_main [of "ex_files ex_doc" "ex_args [] False" ex_sp "''/repo''" 0 _ _
                                ex_loaded "''planning''" ex_planning, unfolded ex_in_sequence]
      ex_startup(1) [of False] nl ex_known(1)
    by simp
  moreover have "exit_code (fst (main ex_sp (ex_files ex_doc) ''/repo'' (ex_args ''build'' False) 0)) = 0"
    using exit_code_of_main [of "ex_files ex_doc" "ex_args ''build'' False" ex_sp "''/repo''" 0 _ _
                                ex_loaded "''build''" "[(''required_gates'', YList [YStr ''test''])]",
                             unfolded ex_in_sequence]
      ex_startup(2) [of False] nl ex_known(2)
    by simp
  ultimately show ?thesis
    using a b d ex_unknown nl li ex_printable ex_startup ex_in_sequence
    by (simp add: ex_required ex_catalog del: in_sequence.simps)
qed

text \<open>
  The claim as stated fails: in list mode, with no config file, the exit code is 2 and not 0.
\<close>

theorem exit_code_of_main_counterexample:
  "arg_list (ex_args [] True)
   \<and> exit_code (fst (main ex_sp no_files ''/repo'' (ex_args [] True) 0)) = 2
   \<and> exit_code (fst (main ex_sp no_files ''/repo'' (ex_args [] True) 0)) \<noteq> 0"
  by (simp add: main_def startup_def load_config_def no_files_def ex_args_def)


subsection \<open>C2: unknown gate references\<close>

text \<open>
  C2. When the config loads, validates and resolves, and the resolved stage requires at
  least one name that is no key of \<^verbatim>\<open>gates\<close>, a run (an invocation outside list mode)
  prints the error that lists the unknown names, in their order, and returns 2; no child
  process has run: the record of children is empty and the world is the one the program
  started in.
\<close>

theorem unknown_gate_reference:
  assumes "startup fs a = Inr (c, n, sc)" and "\<not> arg_list a"
    and "\<exists>g \<in> set (required_gates sc). map_of (gates c) g = None"
  shows "main sp fs repo_root a w
           = (Exit 2,
              emit (EvUnknownGates n (filter (\<lambda>g. map_of (gates c) g = None) (required_gates sc)))
                (init w))
       \<and> exit_code (fst (main sp fs repo_root a w)) = 2
       \<and> gate_log (snd (main sp fs repo_root a w)) = []
       \<and> world (snd (main sp fs repo_root a w)) = w"
proof -
  from assms(1) have "resolve_stage c (arg_stage a) = Inr (n, sc)" by (simp add: startup_Inr)
  then have "dict_get sc ''required_gates'' (YList []) = YList (map YStr (required_gates sc))"
    by (rule required_gates_resolved)
  from run_stage_unknown [OF this assms(3), of sp repo_root n "init w"]
  have "main sp fs repo_root a w
           = (Exit 2,
              emit (EvUnknownGates n (filter (\<lambda>g. map_of (gates c) g = None) (required_gates sc)))
                (init w))"
    by (simp only: main_run [OF assms(1,2)])
  then show ?thesis by (simp add: emit_fields init_fields)
qed

theorem unknown_gate_reference_witness:
  "startup (ex_files ex_doc) (ex_args ''review'' False) = Inr (ex_loaded, ''review'', ex_review)
   \<and> \<not> arg_list (ex_args ''review'' False)
   \<and> (\<exists>g \<in> set (required_gates ex_review). map_of (gates ex_loaded) g = None)
   \<and> main ex_sp (ex_files ex_doc) ''/repo'' (ex_args ''review'' False) 0
       = (Exit 2,
          \<lparr>world = 0, printed = [EvUnknownGates ''review'' [''sign'', ''ship'']], gate_log = []\<rparr>)"
  using unknown_gate_reference [OF ex_startup(4) ex_flags(1) ex_unknown, of ex_sp "''/repo''" 0]
    ex_startup(4) [of False] ex_flags(1) [of "''review''"] ex_unknown
  by (simp add: ex_required ex_catalog emit_def init_def)

subsection \<open>C3: the order of execution\<close>

text \<open>
  C3, where the program departs from it. The claim has every run that reaches the
  execution phase execute the whole list \<^verbatim>\<open>required_gates\<close>, in order. The loop of \<^verbatim>\<open>main\<close>
  does so as long as every command can be started (lemmas \<open>main_started\<close> and
  \<open>in_sequence_names\<close>; in general the gates that ran are a prefix of the list, lemmas
  \<open>main_known\<close> and \<open>in_sequence_prefix\<close>); but \<^verbatim>\<open>subprocess.run\<close> is called outside any \<^verbatim>\<open>try\<close>, and a
  command that passes validation and cannot be started ends the process there. On the
  stage \<^verbatim>\<open>ship\<close>, which requires \<^verbatim>\<open>test\<close>, \<^verbatim>\<open>pack\<close> and \<^verbatim>\<open>lint\<close>, where the program of
  \<^verbatim>\<open>pack\<close> does not exist: the run reaches the loop, \<^verbatim>\<open>test\<close> runs, the start of \<^verbatim>\<open>pack\<close>
  raises, nobody catches the exception, and \<^verbatim>\<open>lint\<close> is never executed.
\<close>

theorem unstartable_gate_ends_run:
  "startup (ex_files ex_pack_doc) (ex_args ''ship'' False) = Inr (ex_pack, ''ship'', ex_ship)
   \<and> \<not> arg_list (ex_args ''ship'' False)
   \<and> required_gates ex_ship = [''test'', ''pack'', ''lint'']
   \<and> map_of (gates ex_pack) ''test'' \<noteq> None
   \<and> map_of (gates ex_pack) ''pack'' \<noteq> None
   \<and> map_of (gates ex_pack) ''lint'' \<noteq> None
   \<and> main ex_sp (ex_files ex_pack_doc) ''/repo'' (ex_args ''ship'' False) 0
       = (Uncaught OSError,
          \<lparr>world = 1,
           printed = [EvRunning ''ship'', EvRule,
                      EvGate (YStr ''test''), EvCommand [''true''], EvPass (YStr ''test''),
                      EvGate (YStr ''pack''), EvCommand [''no-such-binary-xyz'']],
           gate_log = [(YStr ''test'', YList [YStr ''true''], 0)]\<rparr>)
   \<and> map fst (gate_log (snd (main ex_sp (ex_files ex_pack_doc) ''/repo'' (ex_args ''ship'' False) 0)))
       = [YStr ''test'']
   \<and> map fst (gate_log (snd (main ex_sp (ex_files ex_pack_doc) ''/repo'' (ex_args ''ship'' False) 0)))
       \<noteq> map YStr (required_gates ex_ship)
   \<and> exit_code (fst (main ex_sp (ex_files ex_pack_doc) ''/repo'' (ex_args ''ship'' False) 0)) = 1"
proof -
  have m: "main ex_sp (ex_files ex_pack_doc) ''/repo'' (ex_args ''ship'' False) 0
             = run_stage ex_sp ''/repo'' ex_pack ''ship'' ex_ship (init 0)"
    using ex_pack_startup(2) ex_flags(1) by (rule main_run)
  show ?thesis
    unfolding m ex_pack_run
    using ex_pack_startup(2) [of False] ex_flags(1) [of "''ship''"]
    by (simp add: ex_pack_required ex_pack_catalog)
qed

subsection \<open>C4: failures do not stop the run\<close>

text \<open>
  C4, where the program departs from it. The claim has every gate declared after a failed
  one still executed, and a summary printed after the last gate. The loop of \<^verbatim>\<open>main\<close> does
  so as long as every command can be started (lemma \<open>main_started\<close>); the same uncaught
  exception as in C3 breaks it otherwise. On the stage \<^verbatim>\<open>verify\<close>, which requires
  \<^verbatim>\<open>lint\<close>, \<^verbatim>\<open>pack\<close> and \<^verbatim>\<open>test\<close>, where \<^verbatim>\<open>lint\<close> ends with status 1 and the program of
  \<^verbatim>\<open>pack\<close> does not exist: \<^verbatim>\<open>lint\<close> fails, the start of \<^verbatim>\<open>pack\<close> raises, \<^verbatim>\<open>test\<close>, declared
  after the failed \<^verbatim>\<open>lint\<close>, is never executed, no summary is printed, and \<^verbatim>\<open>main\<close> returns
  nothing.
\<close>

theorem unstartable_gate_skips_summary:
  "startup (ex_files ex_pack_doc) (ex_args [] False) = Inr (ex_pack, ''verify'', ex_verify)
   \<and> \<not> arg_list (ex_args [] False)
   \<and> required_gates ex_verify = [''lint'', ''pack'', ''test'']
   \<and> map_of (gates ex_pack) ''lint'' \<noteq> None
   \<and> map_of (gates ex_pack) ''pack'' \<noteq> None
   \<and> map_of (gates ex_pack) ''test'' \<noteq> None
   \<and> ex_sp 0 ''/repo'' (gate_command (gates ex_pack) ''lint'') = (Inr 1, 1)
   \<and> main ex_sp (ex_files ex_pack_doc) ''/repo'' (ex_args [] False) 0
       = (Uncaught OSError,
          \<lparr>world = 1,
           printed = [EvRunning ''verify'', EvRule,
                      EvGate (YStr ''lint''), EvCommand [''false''], EvFail (YStr ''lint'') 1,
                      EvGate (YStr ''pack''), EvCommand [''no-such-binary-xyz'']],
           gate_log = [(YStr ''lint'', YList [YStr ''false''], 1)]\<rparr>)
   \<and> YStr ''test''
       \<notin> fst ` set (gate_log (snd (main ex_sp (ex_files ex_pack_doc) ''/repo'' (ex_args [] False) 0)))
   \<and> EvSummaryFailed 1 [''lint'']
       \<notin> set (printed (snd (main ex_sp (ex_files ex_pack_doc) ''/repo'' (ex_args [] False) 0)))
   \<and> fst (main ex_sp (ex_files ex_pack_doc) ''/repo'' (ex_args [] False) 0) \<noteq> Exit 1"
proof -
  have m: "main ex_sp (ex_files ex_pack_doc) ''/repo'' (ex_args [] False) 0
             = run_stage ex_sp ''/repo'' ex_pack ''verify'' ex_verify (init 0)"
    using ex_pack_startup(1) ex_flags(1) by (rule main_run)
  have c: "ex_sp 0 ''/repo'' (gate_command (gates ex_pack) ''lint'') = (Inr 1, 1)"
    by (simp add: gate_command_def ex_pack_catalog dict_get_def ex_sp_def)
  show ?thesis
    unfolding m ex_pack_run
    using ex_pack_startup(1) [of False] ex_flags(1) [of "[]"] c
    by (simp add: ex_pack_required ex_pack_catalog)
qed

subsection \<open>C5: the override\<close>

text \<open>
  C5. For every valid config, resolving with the empty override returns the config's
  \<^verbatim>\<open>current_stage\<close> and the stage stored under it; resolving with an override \<open>X\<close> that is
  not empty and is a key of \<^verbatim>\<open>stages\<close> returns \<open>X\<close> and the stage stored under \<open>X\<close>,
  whatever \<^verbatim>\<open>current_stage\<close> is.
\<close>

theorem resolve_stage_override:
  assumes "valid_config c"
  shows "(\<exists>d. map_of (stages c) (current_stage c) = Some (YDict d)
              \<and> resolve_stage c [] = Inr (current_stage c, d))
       \<and> (\<forall>X v. X \<noteq> [] \<longrightarrow> map_of (stages c) X = Some v \<longrightarrow>
              (\<exists>d. v = YDict d \<and> resolve_stage c X = Inr (X, d)))"
proof (intro conjI allI impI)
  from assms obtain v where v: "map_of (stages c) (current_stage c) = Some v"
    by (auto simp: valid_config_def)
  then have "(current_stage c, v) \<in> set (stages c)" by (rule map_of_SomeD)
  with assms have "stage_def v" by (auto simp: valid_config_def list_all_iff)
  from stage_def_resolves [OF v this, of "[]"] v
  show "\<exists>d. map_of (stages c) (current_stage c) = Some (YDict d)
              \<and> resolve_stage c [] = Inr (current_stage c, d)" by auto
next
  fix X v
  assume X: "X \<noteq> []" and v: "map_of (stages c) X = Some v"
  then have "(X, v) \<in> set (stages c)" by (simp add: map_of_SomeD)
  with assms have "stage_def v" by (auto simp: valid_config_def list_all_iff)
  from stage_def_resolves [OF v this, of X] X
  show "\<exists>d. v = YDict d \<and> resolve_stage c X = Inr (X, d)" by simp
qed

theorem resolve_stage_override_witness:
  "valid_config ex_loaded
   \<and> resolve_stage ex_loaded [] = Inr (''planning'', ex_planning)
   \<and> ''review'' \<noteq> []
   \<and> map_of (stages ex_loaded) ''review'' = Some (YDict ex_review)
   \<and> current_stage ex_loaded = ''planning''
   \<and> resolve_stage ex_loaded ''review'' = Inr (''review'', ex_review)"
proof -
  have h: "valid_config ex_loaded"
    by (simp add: valid_config_def ex_loaded_def ex_stage_items_def ex_planning_def ex_review_def)
  have s: "map_of (stages ex_loaded) ''review'' = Some (YDict ex_review)"
    "map_of (stages ex_loaded) (current_stage ex_loaded) = Some (YDict ex_planning)"
    "current_stage ex_loaded = ''planning''"
    by (simp_all add: ex_loaded_def ex_stage_items_def)
  from resolve_stage_override [OF h] s show ?thesis
    using h by auto
qed

subsection \<open>C9: stages that do not exist\<close>

text \<open>
  C9. When the resolved stage name (the override if it is not empty, else
  \<^verbatim>\<open>current_stage\<close>) is no key of \<^verbatim>\<open>stages\<close>, resolution fails with the error
  ``Unknown lifecycle stage'' that carries the name; for a config that loads, the process
  then exits with code 2 and has run no gate, in list mode as well as outside it; and when
  the config validates too, the one line the process prints is this error.
\<close>

theorem unknown_stage:
  assumes "map_of (stages c) (if arg_stage a \<noteq> [] then arg_stage a else current_stage c) = None"
  shows "resolve_stage c (arg_stage a)
           = Inl (ValueError (UnknownStage (if arg_stage a \<noteq> [] then arg_stage a else current_stage c)))
       \<and> (load_config fs (arg_config a) = Inr c \<longrightarrow>
            exit_code (fst (main sp fs repo_root a w)) = 2
            \<and> gate_log (snd (main sp fs repo_root a w)) = []
            \<and> world (snd (main sp fs repo_root a w)) = w)
       \<and> (load_config fs (arg_config a) = Inr c \<longrightarrow> validate_gate_definitions c = Inr () \<longrightarrow>
            main sp fs repo_root a w
              = (Exit 2,
                 emit (EvError (UnknownStage
                         (if arg_stage a \<noteq> [] then arg_stage a else current_stage c))) (init w)))"
proof -
  let ?n = "if arg_stage a \<noteq> [] then arg_stage a else current_stage c"
  have r: "resolve_stage c (arg_stage a) = Inl (ValueError (UnknownStage ?n))"
    using assms by (simp add: resolve_stage_def Let_def)
  have e: "\<exists>m. startup fs a = Inl (ValueError m)" if l: "load_config fs (arg_config a) = Inr c"
  proof (cases "validate_gate_definitions c")
    case (Inl x)
    then obtain m where "x = ValueError m"
      by (auto simp: validate_gate_definitions_def dest: check_gates_error)
    with Inl l show ?thesis by (simp add: startup_def)
  next
    case (Inr u)
    with l r show ?thesis by (simp add: startup_def)
  qed
  have q: "exit_code (fst (main sp fs repo_root a w)) = 2
            \<and> gate_log (snd (main sp fs repo_root a w)) = []
            \<and> world (snd (main sp fs repo_root a w)) = w"
    if l: "load_config fs (arg_config a) = Inr c"
  proof -
    from e [OF l] obtain m where "startup fs a = Inl (ValueError m)" by blast
    then show ?thesis by (simp add: main_error emit_fields init_fields)
  qed
  have m: "main sp fs repo_root a w = (Exit 2, emit (EvError (UnknownStage ?n)) (init w))"
    if "load_config fs (arg_config a) = Inr c" "validate_gate_definitions c = Inr ()"
  proof -
    from that r have "startup fs a = Inl (ValueError (UnknownStage ?n))" by (simp add: startup_def)
    then show ?thesis by (rule main_error)
  qed
  from r q m show ?thesis by blast
qed

theorem unknown_stage_witness:
  "map_of (stages ex_loaded) ''missing'' = None
   \<and> load_config (ex_files ex_doc) (arg_config (ex_args ''missing'' False)) = Inr ex_loaded
   \<and> validate_gate_definitions ex_loaded = Inr ()
   \<and> resolve_stage ex_loaded ''missing'' = Inl (ValueError (UnknownStage ''missing''))
   \<and> main ex_sp (ex_files ex_doc) ''/repo'' (ex_args ''missing'' False) 0
       = (Exit 2, \<lparr>world = 0, printed = [EvError (UnknownStage ''missing'')], gate_log = []\<rparr>)"
proof -
  have a: "arg_stage (ex_args ''missing'' False) = ''missing''"
    "arg_config (ex_args ''missing'' False) = ''lifecycle-stage.yaml''"
    by (simp_all add: ex_args_def)
  have h: "map_of (stages ex_loaded)
             (if arg_stage (ex_args ''missing'' False) \<noteq> []
              then arg_stage (ex_args ''missing'' False) else current_stage ex_loaded) = None"
    by (simp add: a ex_loaded_def ex_stage_items_def)
  from unknown_stage [OF h, of "ex_files ex_doc" ex_sp "''/repo''" 0] h
  show ?thesis
    by (simp add: a ex_load ex_validate emit_def init_def)
qed

subsection \<open>C10: stages that are no mappings\<close>

text \<open>
  C10. A stage name that is a key of \<^verbatim>\<open>stages\<close> still fails resolution with the error
  ``Unknown lifecycle stage'' whenever the value stored under it is no mapping; a
  resolution that succeeds for a name has found a mapping under that name; and the loader
  accepts a document whatever the values of its stages are.
\<close>

theorem resolve_stage_not_mapping:
  "(map_of (stages c) (if ov \<noteq> [] then ov else current_stage c) = Some v \<longrightarrow> \<not> is_dict v \<longrightarrow>
      resolve_stage c ov = Inl (ValueError (UnknownStage (if ov \<noteq> [] then ov else current_stage c))))
   \<and> (resolve_stage c ov = Inr (n, sc) \<longrightarrow> map_of (stages c) n = Some (YDict sc))
   \<and> (fs p = Some (Document (YDict kvs)) \<longrightarrow> map_of kvs ''stages'' = Some (YDict st) \<longrightarrow>
        map_of kvs ''gates'' = Some (YDict gs) \<longrightarrow> map_of kvs ''current_stage'' = Some (YStr cs) \<longrightarrow>
        load_config fs p = Inr \<lparr>current_stage = cs, stages = st, gates = gs\<rparr>)"
proof (intro conjI impI)
  assume "map_of (stages c) (if ov \<noteq> [] then ov else current_stage c) = Some v" and "\<not> is_dict v"
  then show "resolve_stage c ov
               = Inl (ValueError (UnknownStage (if ov \<noteq> [] then ov else current_stage c)))"
    by (cases v) (simp_all add: resolve_stage_def Let_def)
next
  assume "resolve_stage c ov = Inr (n, sc)"
  from resolve_stage_Inr [OF this] show "map_of (stages c) n = Some (YDict sc)" by blast
next
  assume "fs p = Some (Document (YDict kvs))" "map_of kvs ''stages'' = Some (YDict st)"
    "map_of kvs ''gates'' = Some (YDict gs)" "map_of kvs ''current_stage'' = Some (YStr cs)"
  then show "load_config fs p = Inr \<lparr>current_stage = cs, stages = st, gates = gs\<rparr>"
    by (simp add: load_config_def)
qed

theorem resolve_stage_not_mapping_witness:
  "map_of (stages ex_draft) ''draft'' = Some YNull
   \<and> \<not> is_dict YNull
   \<and> load_config (ex_files ex_draft_doc) ''lifecycle-stage.yaml'' = Inr ex_draft
   \<and> resolve_stage ex_draft [] = Inl (ValueError (UnknownStage ''draft''))
   \<and> resolve_stage ex_draft ''empty'' = Inr (''empty'', [(''description'', YStr ''Nothing to check'')])
   \<and> map_of (stages ex_draft) ''empty'' = Some (YDict [(''description'', YStr ''Nothing to check'')])"
proof -
  have r: "resolve_stage ex_draft ''empty''
             = Inr (''empty'', [(''description'', YStr ''Nothing to check'')])"
    by (simp add: resolve_stage_def ex_draft_def dict_get_def)
  have c: "current_stage ex_draft = ''draft''" by (simp add: ex_draft_def)
  have d: "map_of (stages ex_draft) ''draft'' = Some YNull" by (simp add: ex_draft_def)
  have f: "ex_files ex_draft_doc ''lifecycle-stage.yaml''
             = Some (Document
                       (YDict [(''stages'', YDict (stages ex_draft)), (''gates'', YDict (gates ex_draft)),
                               (''current_stage'', YStr (current_stage ex_draft))]))"
    by (simp add: ex_files_def ex_draft_doc_def ex_draft_def)
  have e: "\<lparr>current_stage = current_stage ex_draft, stages = stages ex_draft,
             gates = gates ex_draft\<rparr> = ex_draft"
    by simp
  from resolve_stage_not_mapping
         [of ex_draft "[]" YNull "''draft''" "[]"
             "ex_files ex_draft_doc" "''lifecycle-stage.yaml''"
             "[(''stages'', YDict (stages ex_draft)), (''gates'', YDict (gates ex_draft)),
               (''current_stage'', YStr (current_stage ex_draft))]"
             "stages ex_draft" "gates ex_draft" "current_stage ex_draft"]
       resolve_stage_not_mapping [of ex_draft "''empty''" _ "''empty''"
                                     "[(''description'', YStr ''Nothing to check'')]"]
  show ?thesis
    unfolding e using r d f by (simp add: c)
qed

subsection \<open>C8: the shape of \<^verbatim>\<open>required_gates\<close>\<close>

text \<open>
  C8. For a resolved stage that is a mapping: when the key \<^verbatim>\<open>required_gates\<close> is present
  and its value is not a list of strings, resolution fails with the error that the stage
  must define \<^verbatim>\<open>required_gates\<close> as a list of gate names; when the key is absent,
  resolution succeeds, and a run of that stage (config loaded and validated, list mode off)
  executes no gate, prints ``PASSED (0 gate(s))'' and returns 0.
\<close>

theorem required_gates_shape:
  assumes "nm = (if ov \<noteq> [] then ov else current_stage c)"
    and "map_of (stages c) nm = Some (YDict sc)"
  shows "(map_of sc ''required_gates'' = Some r \<longrightarrow>
            \<not> (\<exists>xs. r = YList xs \<and> list_all is_str xs) \<longrightarrow>
            resolve_stage c ov = Inl (ValueError (BadRequiredGates nm)))
       \<and> (map_of sc ''required_gates'' = None \<longrightarrow>
            resolve_stage c ov = Inr (nm, sc)
            \<and> (load_config fs (arg_config a) = Inr c \<longrightarrow> validate_gate_definitions c = Inr () \<longrightarrow>
                 arg_stage a = ov \<longrightarrow> \<not> arg_list a \<longrightarrow>
                 main sp fs repo_root a w
                   = (Exit 0,
                      \<lparr>world = w,
                       printed = [EvRunning nm, EvRule, EvDoubleRule, EvSummaryPassed 0],
                       gate_log = []\<rparr>)))"
proof (intro conjI impI)
  assume r: "map_of sc ''required_gates'' = Some r"
    and bad: "\<not> (\<exists>xs. r = YList xs \<and> list_all is_str xs)"
  from bad have "\<not> names_ok r" by (cases r) simp_all
  with r assms show "resolve_stage c ov = Inl (ValueError (BadRequiredGates nm))"
    by (simp add: resolve_stage_def Let_def dict_get_def)
next
  assume none: "map_of sc ''required_gates'' = None"
  with assms show res: "resolve_stage c ov = Inr (nm, sc)"
    by (simp add: resolve_stage_def Let_def dict_get_def)
  assume "load_config fs (arg_config a) = Inr c" "validate_gate_definitions c = Inr ()"
    "arg_stage a = ov" "\<not> arg_list a"
  with res have "startup fs a = Inr (c, nm, sc)" and "\<not> arg_list a"
    by (simp_all add: startup_Inr)
  then have "main sp fs repo_root a w = run_stage sp repo_root c nm sc (init w)"
    by (rule main_run)
  also have "\<dots> = (Exit 0,
                      \<lparr>world = w,
                       printed = [EvRunning nm, EvRule, EvDoubleRule, EvSummaryPassed 0],
                       gate_log = []\<rparr>)"
    using none by (simp add: run_stage_def dict_get_def Let_def emit_def init_def)
  finally show "main sp fs repo_root a w
                   = (Exit 0,
                      \<lparr>world = w,
                       printed = [EvRunning nm, EvRule, EvDoubleRule, EvSummaryPassed 0],
                       gate_log = []\<rparr>)" .
qed

theorem required_gates_shape_witness:
  "map_of (stages ex_draft) ''broken'' = Some (YDict [(''required_gates'', YInt 5)])
   \<and> map_of [(''required_gates'', YInt 5)] ''required_gates'' = Some (YInt 5)
   \<and> resolve_stage ex_draft ''broken'' = Inl (ValueError (BadRequiredGates ''broken''))
   \<and> map_of (stages ex_draft) ''empty'' = Some (YDict [(''description'', YStr ''Nothing to check'')])
   \<and> map_of [(''description'', YStr ''Nothing to check'')] ''required_gates'' = None
   \<and> load_config (ex_files ex_draft_doc) (arg_config (ex_args ''empty'' False)) = Inr ex_draft
   \<and> validate_gate_definitions ex_draft = Inr ()
   \<and> \<not> arg_list (ex_args ''empty'' False)
   \<and> resolve_stage ex_draft ''empty'' = Inr (''empty'', [(''description'', YStr ''Nothing to check'')])
   \<and> main ex_sp (ex_files ex_draft_doc) ''/repo'' (ex_args ''empty'' False) 0
       = (Exit 0,
          \<lparr>world = 0,
           printed = [EvRunning ''empty'', EvRule, EvDoubleRule, EvSummaryPassed 0],
           gate_log = []\<rparr>)"
proof -
  have b: "map_of (stages ex_draft) ''broken'' = Some (YDict [(''required_gates'', YInt 5)])"
    and m: "map_of (stages ex_draft) ''empty''
              = Some (YDict [(''description'', YStr ''Nothing to check'')])"
    by (simp_all add: ex_draft_def)
  have l: "load_config (ex_files ex_draft_doc) (arg_config (ex_args ''empty'' False)) = Inr ex_draft"
    by (simp add: load_config_def ex_files_def ex_draft_doc_def ex_draft_def ex_args_def)
  have v: "validate_gate_definitions ex_draft = Inr ()"
    by (simp add: validate_gate_definitions_def ex_draft_def)
  have a: "arg_stage (ex_args ''empty'' False) = ''empty''" by (simp add: ex_args_def)
  from required_gates_shape [of "''broken''" "''broken''" ex_draft "[(''required_gates'', YInt 5)]"
                                "YInt 5"]
       required_gates_shape [of "''empty''" "''empty''" ex_draft
                                "[(''description'', YStr ''Nothing to check'')]" _
                                "ex_files ex_draft_doc" "ex_args ''empty'' False" ex_sp "''/repo''" 0]
  show ?thesis
    using b m l v a ex_flags(1) [of "''empty''"] by simp
qed

subsection \<open>C6: list mode\<close>

text \<open>
  C6, as amended. The claim gives exit code 0 to list mode on every config; the program
  loads, validates and resolves before it looks at the list flag, so a config that fails
  there ends with code 2 in list mode too. What holds: in list mode no gate command is
  executed, for every config and every file system (the record of children stays empty
  and the world is untouched); and for a config that loads, validates and resolves, and
  whose stages can all be printed, list mode returns 0, dangling gate references or not.
\<close>

theorem list_mode:
  assumes "arg_list a"
  shows "gate_log (snd (main sp fs repo_root a w)) = []
       \<and> world (snd (main sp fs repo_root a w)) = w
       \<and> (startup fs a = Inr (c, n, sc) \<longrightarrow> printable c \<longrightarrow>
            fst (main sp fs repo_root a w) = Exit 0
            \<and> exit_code (fst (main sp fs repo_root a w)) = 0)"
proof -
  have quiet: "gate_log (snd (main sp fs repo_root a w)) = [] \<and> world (snd (main sp fs repo_root a w)) = w"
  proof (cases "startup fs a")
    case (Inl e)
    then show ?thesis by (rule startup_error_silent)
  next
    case (Inr r)
    then obtain c n sc where s: "startup fs a = Inr (c, n, sc)" by (cases r) auto
    obtain x s' where p: "print_stage_matrix c (init w) = (x, s')"
      by (cases "print_stage_matrix c (init w)")
    with print_stage_matrix_silent [of c "init w"]
    have "world s' = w" "gate_log s' = []" by (simp_all add: init_fields)
    then show ?thesis
      unfolding main_list [OF s assms] p by (cases x) simp_all
  qed
  have "fst (main sp fs repo_root a w) = Exit 0"
    if s: "startup fs a = Inr (c, n, sc)" and p: "printable c"
  proof -
    from p have "fst (print_stage_matrix c (init w)) = None" by (rule print_stage_matrix_printable)
    then show ?thesis
      unfolding main_list [OF s assms] by (cases "print_stage_matrix c (init w)") simp
  qed
  with quiet show ?thesis by simp
qed

text \<open>List mode on the stage \<^verbatim>\<open>review\<close>, which names two gates that do not exist.\<close>

theorem list_mode_witness:
  "arg_list (ex_args ''review'' True)
   \<and> startup (ex_files ex_doc) (ex_args ''review'' True) = Inr (ex_loaded, ''review'', ex_review)
   \<and> printable ex_loaded
   \<and> (\<exists>g \<in> set (required_gates ex_review). map_of (gates ex_loaded) g = None)
   \<and> gate_log (snd (main ex_sp (ex_files ex_doc) ''/repo'' (ex_args ''review'' True) 0)) = []
   \<and> world (snd (main ex_sp (ex_files ex_doc) ''/repo'' (ex_args ''review'' True) 0)) = 0
   \<and> fst (main ex_sp (ex_files ex_doc) ''/repo'' (ex_args ''review'' True) 0) = Exit 0"
  using list_mode [OF ex_flags(2), of ex_sp "ex_files ex_doc" "''/repo''" "''review''" 0
                      ex_loaded "''review''" ex_review]
    ex_flags(2) [of "''review''"] ex_startup(4) [of True] ex_printable ex_unknown
  by simp

text \<open>
  The claim as stated fails: in list mode, on a config whose \<^verbatim>\<open>current_stage\<close> is none of
  its stages, the exit code is 2 and not 0.
\<close>

theorem list_mode_counterexample:
  "arg_list (ex_args [] True)
   \<and> load_config (ex_files ex_lost_doc) (arg_config (ex_args [] True))
       = Inr (ex_loaded\<lparr>current_stage := ''nowhere''\<rparr>)
   \<and> main ex_sp (ex_files ex_lost_doc) ''/repo'' (ex_args [] True) 0
       = (Exit 2, \<lparr>world = 0, printed = [EvError (UnknownStage ''nowhere'')], gate_log = []\<rparr>)
   \<and> exit_code (fst (main ex_sp (ex_files ex_lost_doc) ''/repo'' (ex_args [] True) 0)) \<noteq> 0"
proof -
  have l: "load_config (ex_files ex_lost_doc) (arg_config (ex_args [] True))
             = Inr (ex_loaded\<lparr>current_stage := ''nowhere''\<rparr>)"
    by (simp add: load_config_def ex_files_def ex_lost_doc_def ex_loaded_def ex_args_def)
  have v: "validate_gate_definitions (ex_loaded\<lparr>current_stage := ''nowhere''\<rparr>) = Inr ()"
    using ex_validate by (simp add: validate_gate_definitions_def)
  have r: "resolve_stage (ex_loaded\<lparr>current_stage := ''nowhere''\<rparr>) (arg_stage (ex_args [] True))
             = Inl (ValueError (UnknownStage ''nowhere''))"
    by (simp add: resolve_stage_def ex_loaded_def ex_stage_items_def ex_args_def)
  have "startup (ex_files ex_lost_doc) (ex_args [] True) = Inl (ValueError (UnknownStage ''nowhere''))"
    by (simp add: startup_def l v r)
  then have "main ex_sp (ex_files ex_lost_doc) ''/repo'' (ex_args [] True) 0
               = (Exit 2, \<lparr>world = 0, printed = [EvError (UnknownStage ''nowhere'')], gate_log = []\<rparr>)"
    by (simp add: main_error emit_def init_def)
  with l ex_flags(2) [of "[]"] show ?thesis by simp
qed

subsection \<open>C7: configs and gate definitions that are rejected\<close>

text \<open>
  C7, as amended. The claim has the error name every gate without a usable command; the
  loop of \<^verbatim>\<open>validate_gate_definitions\<close> raises at the first one, so the error names the
  first such gate in the order of declaration. What holds: a document that is not a mapping
  with a mapping \<^verbatim>\<open>stages\<close>, a mapping \<^verbatim>\<open>gates\<close> and a string \<^verbatim>\<open>current_stage\<close> fails to
  load with one of the four errors of an invalid config; a config with a gate that is no
  mapping or whose \<^verbatim>\<open>command\<close> is absent, no list, empty or holds an element that is no
  string fails validation, with an error that names the first such gate; and in each case
  the process prints the error, exits with code 2 and has run no gate.
\<close>

theorem invalid_config_rejected:
  "(fs (arg_config a) = Some (Document doc) \<longrightarrow>
      \<not> (\<exists>kvs st gs cs. doc = YDict kvs \<and> map_of kvs ''stages'' = Some (YDict st)
            \<and> map_of kvs ''gates'' = Some (YDict gs)
            \<and> map_of kvs ''current_stage'' = Some (YStr cs)) \<longrightarrow>
      (\<exists>m. (m = NotMapping \<or> m = NoStages \<or> m = NoGates \<or> m = NoCurrentStage)
            \<and> load_config fs (arg_config a) = Inl (ValueError m)
            \<and> main sp fs repo_root a w = (Exit 2, emit (EvError m) (init w)))
      \<and> gate_log (snd (main sp fs repo_root a w)) = [])
   \<and> (load_config fs (arg_config a) = Inr c \<longrightarrow> gates c = before @ (g, v) # rest \<longrightarrow>
        list_all (\<lambda>item. gate_def (snd item)) before \<longrightarrow> \<not> gate_def v \<longrightarrow>
        (\<exists>m. (m = GateNotMapping g \<or> m = GateBadCommand g)
              \<and> validate_gate_definitions c = Inl (ValueError m)
              \<and> main sp fs repo_root a w = (Exit 2, emit (EvError m) (init w)))
        \<and> gate_log (snd (main sp fs repo_root a w)) = [])
   \<and> (load_config fs (arg_config a) = Inr c \<longrightarrow> \<not> list_all (\<lambda>item. gate_def (snd item)) (gates c) \<longrightarrow>
        (\<exists>m. validate_gate_definitions c = Inl (ValueError m))
        \<and> exit_code (fst (main sp fs repo_root a w)) = 2
        \<and> gate_log (snd (main sp fs repo_root a w)) = [])"
proof -
  have quiet: "gate_log (snd (main sp fs repo_root a w)) = []
               \<and> exit_code (fst (main sp fs repo_root a w)) = 2"
    if "main sp fs repo_root a w = (Exit 2, emit (EvError m) (init w))" for m
    unfolding that by (simp add: emit_fields init_fields)
  have first: "\<exists>m. (m = GateNotMapping g' \<or> m = GateBadCommand g')
                   \<and> validate_gate_definitions c = Inl (ValueError m)
                   \<and> main sp fs repo_root a w = (Exit 2, emit (EvError m) (init w))"
    if l: "load_config fs (arg_config a) = Inr c" and s: "gates c = before' @ (g', v') # rest'"
      and ok: "list_all (\<lambda>item. gate_def (snd item)) before'" and bad: "\<not> gate_def v'"
    for before' g' v' rest'
  proof -
    from check_gate_names [OF bad, of g'] obtain m where
      m: "m = GateNotMapping g' \<or> m = GateBadCommand g'" "check_gate g' v' = Some (ValueError m)"
      by blast
    from check_gates_first [OF ok, of g' v' rest'] m(2) s
    have v: "validate_gate_definitions c = Inl (ValueError m)"
      by (simp add: validate_gate_definitions_def)
    with l have "startup fs a = Inl (ValueError m)" by (simp add: startup_def)
    then have "main sp fs repo_root a w = (Exit 2, emit (EvError m) (init w))"
      by (rule main_error)
    with m(1) v show ?thesis by blast
  qed
  have A: "(\<exists>m. (m = NotMapping \<or> m = NoStages \<or> m = NoGates \<or> m = NoCurrentStage)
            \<and> load_config fs (arg_config a) = Inl (ValueError m)
            \<and> main sp fs repo_root a w = (Exit 2, emit (EvError m) (init w)))
      \<and> gate_log (snd (main sp fs repo_root a w)) = []"
    if d: "fs (arg_config a) = Some (Document doc)"
      and n: "\<not> (\<exists>kvs st gs cs. doc = YDict kvs \<and> map_of kvs ''stages'' = Some (YDict st)
            \<and> map_of kvs ''gates'' = Some (YDict gs)
            \<and> map_of kvs ''current_stage'' = Some (YStr cs))"
  proof -
    from load_config_invalid [of fs "arg_config a" doc, OF d n] obtain m where
      m: "m = NotMapping \<or> m = NoStages \<or> m = NoGates \<or> m = NoCurrentStage"
         "load_config fs (arg_config a) = Inl (ValueError m)"
      by blast
    then have "startup fs a = Inl (ValueError m)" by (simp add: startup_def)
    then have "main sp fs repo_root a w = (Exit 2, emit (EvError m) (init w))"
      by (rule main_error)
    with m quiet [OF this] show ?thesis by blast
  qed
  have B: "(\<exists>m. (m = GateNotMapping g \<or> m = GateBadCommand g)
              \<and> validate_gate_definitions c = Inl (ValueError m)
              \<and> main sp fs repo_root a w = (Exit 2, emit (EvError m) (init w)))
        \<and> gate_log (snd (main sp fs repo_root a w)) = []"
    if "load_config fs (arg_config a) = Inr c" "gates c = before @ (g, v) # rest"
      "list_all (\<lambda>item. gate_def (snd item)) before" "\<not> gate_def v"
    using first [OF that] quiet by blast
  have C: "(\<exists>m. validate_gate_definitions c = Inl (ValueError m))
        \<and> exit_code (fst (main sp fs repo_root a w)) = 2
        \<and> gate_log (snd (main sp fs repo_root a w)) = []"
    if l: "load_config fs (arg_config a) = Inr c"
      and n: "\<not> list_all (\<lambda>item. gate_def (snd item)) (gates c)"
  proof -
    from n have "\<exists>item \<in> set (gates c). \<not> gate_def (snd item)" by (simp add: list_all_iff)
    then obtain before' item rest' where
      s: "gates c = before' @ item # rest'" and bad: "\<not> gate_def (snd item)"
      and ok: "\<forall>x \<in> set before'. \<not> \<not> gate_def (snd x)"
      by (auto dest!: split_list_first_prop)
    from ok have ok': "list_all (\<lambda>item. gate_def (snd item)) before'" by (simp add: list_all_iff)
    from s have s': "gates c = before' @ (fst item, snd item) # rest'" by simp
    from first [OF l s' ok' bad] quiet show ?thesis by blast
  qed
  from A B C show ?thesis by blast
qed

text \<open>
  A document that is a list; then the config with the two gates \<^verbatim>\<open>a\<close> and \<^verbatim>\<open>b\<close>, where
  \<^verbatim>\<open>a\<close> is the first gate without a usable command.
\<close>

theorem invalid_config_rejected_witness:
  "ex_files (YList []) (arg_config (ex_args [] False)) = Some (Document (YList []))
   \<and> load_config (ex_files (YList [])) (arg_config (ex_args [] False)) = Inl (ValueError NotMapping)
   \<and> main ex_sp (ex_files (YList [])) ''/repo'' (ex_args [] False) 0
       = (Exit 2, \<lparr>world = 0, printed = [EvError NotMapping], gate_log = []\<rparr>)
   \<and> load_config (ex_files ex_bad_gates_doc) (arg_config (ex_args [] False)) = Inr ex_bad_gates
   \<and> gates ex_bad_gates = [] @ (''a'', YDict []) # [(''b'', YDict [(''command'', YList [])])]
   \<and> \<not> gate_def (YDict [])
   \<and> validate_gate_definitions ex_bad_gates = Inl (ValueError (GateBadCommand ''a''))
   \<and> main ex_sp (ex_files ex_bad_gates_doc) ''/repo'' (ex_args [] False) 0
       = (Exit 2, \<lparr>world = 0, printed = [EvError (GateBadCommand ''a'')], gate_log = []\<rparr>)"
proof -
  have f: "ex_files (YList []) (arg_config (ex_args [] False)) = Some (Document (YList []))"
    by (simp add: ex_files_def ex_args_def)
  have l: "load_config (ex_files ex_bad_gates_doc) (arg_config (ex_args [] False)) = Inr ex_bad_gates"
    by (simp add: load_config_def ex_files_def ex_bad_gates_doc_def ex_bad_gates_def ex_args_def)
  have s: "gates ex_bad_gates = [] @ (''a'', YDict []) # [(''b'', YDict [(''command'', YList [])])]"
    by (simp add: ex_bad_gates_def)
  have v: "validate_gate_definitions ex_bad_gates = Inl (ValueError (GateBadCommand ''a''))"
    by (simp add: validate_gate_definitions_def ex_bad_gates_def check_gate_def dict_get_def)
  have n: "load_config (ex_files (YList [])) (arg_config (ex_args [] False)) = Inl (ValueError NotMapping)"
    by (simp add: load_config_def f)
  from invalid_config_rejected [of "ex_files (YList [])" "ex_args [] False" "YList []"
                                   ex_sp "''/repo''" 0] f n
  have 1: "main ex_sp (ex_files (YList [])) ''/repo'' (ex_args [] False) 0
             = (Exit 2, emit (EvError NotMapping) (init 0))"
    by auto
  from invalid_config_rejected [of "ex_files ex_bad_gates_doc" "ex_args [] False" _ ex_sp "''/repo''" 0
                                   ex_bad_gates "[]" "''a''" "YDict []"
                                   "[(''b'', YDict [(''command'', YList [])])]"] l s v
  have 2: "main ex_sp (ex_files ex_bad_gates_doc) ''/repo'' (ex_args [] False) 0
             = (Exit 2, emit (EvError (GateBadCommand ''a'')) (init 0))"
    by auto
  show ?thesis
    using f n l s v 1 2 by (simp add: emit_def init_def)
qed

text \<open>
  The claim as stated fails: the gate \<^verbatim>\<open>b\<close> has an empty command, and the error of the
  validation names \<^verbatim>\<open>a\<close>, not \<^verbatim>\<open>b\<close>.
\<close>

theorem invalid_config_rejected_counterexample:
  "map_of (gates ex_bad_gates) ''b'' = Some (YDict [(''command'', YList [])])
   \<and> \<not> gate_def (YDict [(''command'', YList [])])
   \<and> validate_gate_definitions ex_bad_gates = Inl (ValueError (GateBadCommand ''a''))
   \<and> validate_gate_definitions ex_bad_gates \<noteq> Inl (ValueError (GateBadCommand ''b''))
   \<and> validate_gate_definitions ex_bad_gates \<noteq> Inl (ValueError (GateNotMapping ''b''))
   \<and> printed (snd (main ex_sp (ex_files ex_bad_gates_doc) ''/repo'' (ex_args [] False) 0))
       = [EvError (GateBadCommand ''a'')]"
proof -
  have l: "load_config (ex_files ex_bad_gates_doc) (arg_config (ex_args [] False)) = Inr ex_bad_gates"
    by (simp add: load_config_def ex_files_def ex_bad_gates_doc_def ex_bad_gates_def ex_args_def)
  have v: "validate_gate_definitions ex_bad_gates = Inl (ValueError (GateBadCommand ''a''))"
    by (simp add: validate_gate_definitions_def ex_bad_gates_def check_gate_def dict_get_def)
  from l v have "startup (ex_files ex_bad_gates_doc) (ex_args [] False)
                   = Inl (ValueError (GateBadCommand ''a''))"
    by (simp add: startup_def)
  then have "main ex_sp (ex_files ex_bad_gates_doc) ''/repo'' (ex_args [] False) 0
               = (Exit 2, emit (EvError (GateBadCommand ''a'')) (init 0))"
    by (rule main_error)
  then show ?thesis
    using v by (simp add: emit_def init_def ex_bad_gates_def)
qed

end
